theory Spec2Isabelle
  imports Complex_Main "HOL-Library.AList" "HOL-Library.Sublist"
begin

section \<open>Python strings, values and exceptions\<close>

text \<open>
  A Python \<open>str\<close> is a sequence of Unicode code points, so it is modelled as a list of
  natural numbers. ASCII literals of the source are written with \<open>ascii\<close>; the Japanese
  literals are written as their code points. Dictionary keys and column labels, which
  the source only ever writes as ASCII literals, are HOL strings.
\<close>

type_synonym pystr = "nat list"

definition ascii :: "string \<Rightarrow> pystr" where
  "ascii s = map of_char s"

text \<open>
  The values a record field holds: \<open>None\<close>, an \<open>int\<close> or a \<open>str\<close>. These are the types
  the callers put into a record (a number input gives an int, a text input a str);
  floats, bools and containers are outside the model.
\<close>

datatype pyval = VNone | VInt int | VStr pystr

type_synonym pydict = "string \<Rightarrow> pyval option"

text \<open>Truthiness, as \<open>not x\<close> tests it.\<close>

fun truthy :: "pyval \<Rightarrow> bool" where
  "truthy VNone = False"
| "truthy (VInt n) = (n \<noteq> 0)"
| "truthy (VStr s) = (s \<noteq> [])"

text \<open>An exception is its class and the text \<open>str(e)\<close> gives.\<close>

datatype exc_class =
  KeyError | TypeError | ValueError | IndexError | AttributeError | OSError
  | RuntimeError | FileProcessError | RendererError

datatype exc = Exc exc_class pystr

fun str_exc :: "exc \<Rightarrow> pystr" where
  "str_exc (Exc c m) = m"

fun class_of :: "exc \<Rightarrow> exc_class" where
  "class_of (Exc c m) = c"

text \<open>\<open>str(e)\<close> of a \<open>KeyError\<close> is the \<open>repr\<close> of the key.\<close>

definition quoted :: "string \<Rightarrow> string" where
  "quoted k = [CHR 0x27] @ k @ [CHR 0x27]"

definition key_error :: "string \<Rightarrow> exc" where
  "key_error k = Exc KeyError (ascii (quoted k))"

definition not_supported :: "string \<Rightarrow> exc" where
  "not_supported ty =
     Exc TypeError
       (ascii (quoted ''<='' @ '' not supported between instances of '' @ quoted ''int''
               @ '' and '' @ quoted ty))"

subsection \<open>\<open>str(int)\<close> and \<open>int(str)\<close>\<close>

fun digits :: "nat \<Rightarrow> pystr" where
  "digits n = (if n < 10 then [48 + n] else digits (n div 10) @ [48 + n mod 10])"

declare digits.simps [simp del]

definition str_int :: "int \<Rightarrow> pystr" where
  "str_int i = (if i < 0 then 45 # digits (nat (- i)) else digits (nat i))"

fun py_str :: "pyval \<Rightarrow> pystr" where
  "py_str VNone = ascii ''None''"
| "py_str (VInt n) = str_int n"
| "py_str (VStr s) = s"

text \<open>
  \<open>int(s)\<close> on a string: surrounding whitespace is stripped, then an optional sign and
  decimal digits, where single underscores may separate digits. The whitespace set is
  the one of \<open>str.isspace\<close>. The decimal digits are those of Unicode 14.0, the table of
  Python 3.11: 66 runs of ten code points, listed by their zeros. A string with more
  than 4300 digits is refused, which is the default limit of \<open>int\<close>.
\<close>

definition is_space :: "nat \<Rightarrow> bool" where
  "is_space c =
     ((9 \<le> c \<and> c \<le> 13) \<or> (28 \<le> c \<and> c \<le> 32) \<or> c = 0x85 \<or> c = 0xA0 \<or> c = 0x1680
      \<or> (0x2000 \<le> c \<and> c \<le> 0x200A) \<or> c = 0x2028 \<or> c = 0x2029 \<or> c = 0x202F
      \<or> c = 0x205F \<or> c = 0x3000)"

definition strip :: "pystr \<Rightarrow> pystr" where
  "strip s = rev (dropWhile is_space (rev (dropWhile is_space s)))"

definition decimal_zeros :: "nat list" where
  "decimal_zeros =
     [0x30, 0x660, 0x6F0, 0x7C0, 0x966, 0x9E6, 0xA66, 0xAE6, 0xB66,
      0xBE6, 0xC66, 0xCE6, 0xD66, 0xDE6, 0xE50, 0xED0, 0xF20, 0x1040,
      0x1090, 0x17E0, 0x1810, 0x1946, 0x19D0, 0x1A80, 0x1A90, 0x1B50, 0x1BB0,
      0x1C40, 0x1C50, 0xA620, 0xA8D0, 0xA900, 0xA9D0, 0xA9F0, 0xAA50, 0xABF0,
      0xFF10, 0x104A0, 0x10D30, 0x11066, 0x110F0, 0x11136, 0x111D0, 0x112F0, 0x11450,
      0x114D0, 0x11650, 0x116C0, 0x11730, 0x118E0, 0x11950, 0x11C50, 0x11D50, 0x11DA0,
      0x16A60, 0x16AC0, 0x16B50, 0x1D7CE, 0x1D7D8, 0x1D7E2, 0x1D7EC, 0x1D7F6, 0x1E140,
      0x1E2F0, 0x1E950, 0x1FBF0]"

definition digit_value :: "nat \<Rightarrow> nat option" where
  "digit_value c = map_option (\<lambda>z. c - z) (find (\<lambda>z. z \<le> c \<and> c \<le> z + 9) decimal_zeros)"

fun nat_literal :: "nat \<Rightarrow> pystr \<Rightarrow> nat option" where
  "nat_literal acc [] = None"
| "nat_literal acc (c # cs) =
     (case digit_value c of
        None \<Rightarrow> None
      | Some d \<Rightarrow>
          (case cs of
             [] \<Rightarrow> Some (10 * acc + d)
           | x # xs \<Rightarrow>
               if x = 95 then nat_literal (10 * acc + d) xs
               else nat_literal (10 * acc + d) cs))"

definition max_str_digits :: nat where
  "max_str_digits = 4300"

definition int_of_str :: "pystr \<Rightarrow> int option" where
  "int_of_str s =
     (case strip s of
        [] \<Rightarrow> None
      | c # cs \<Rightarrow>
          (let literal = (if c = 45 \<or> c = 43 then cs else c # cs) in
           if max_str_digits < length (filter (\<lambda>x. x \<noteq> 95) literal) then None
           else if c = 45 then map_option (\<lambda>n. - int n) (nat_literal 0 literal)
           else map_option int (nat_literal 0 literal)))"

text \<open>
  The text of the \<open>ValueError\<close> ends with the \<open>repr\<close> of the string, which is left out:
  the only caller catches the exception and never reads its text.
\<close>

definition invalid_literal :: exc where
  "invalid_literal = Exc ValueError (ascii ''invalid literal for int() with base 10'')"

fun py_int :: "pyval \<Rightarrow> exc + int" where
  "py_int (VInt n) = Inr n"
| "py_int (VStr s) = (case int_of_str s of None \<Rightarrow> Inl invalid_literal | Some n \<Rightarrow> Inr n)"
| "py_int VNone =
     Inl (Exc TypeError
       (ascii (''int() argument must be a string, a bytes-like object or a real number, not ''
               @ quoted ''NoneType'')))"

section \<open>The record validators\<close>

subsection \<open>Subjects\<close>

definition kokugo :: pystr where "kokugo = [0x56FD, 0x8A9E]"
definition sugaku :: pystr where "sugaku = [0x6570, 0x5B66]"
definition shakai :: pystr where "shakai = [0x793E, 0x4F1A]"
definition rika :: pystr where "rika = [0x7406, 0x79D1]"
definition eigo :: pystr where "eigo = [0x82F1, 0x8A9E]"
definition gijutsu_katei :: pystr where "gijutsu_katei = [0x6280, 0x8853, 0x5BB6, 0x5EAD]"
definition ongaku :: pystr where "ongaku = [0x97F3, 0x697D]"
definition hoken_taiiku :: pystr where "hoken_taiiku = [0x4FDD, 0x5065, 0x4F53, 0x80B2]"

text \<open>
  \<open>VALID_SUBJECTS\<close> of \<open>pdf_generator/__init__.py\<close> and \<open>SUBJECT_IMAGES\<close> of
  \<open>generator.py\<close>: the same table from subject to medal and ribbon file names.
\<close>

definition SUBJECT_IMAGES :: "(pystr \<times> (string \<times> string)) list" where
  "SUBJECT_IMAGES =
     [(kokugo, (''n_lang1.png'', ''n_lang2.png'')),
      (sugaku, (''math1.png'', ''math2.png'')),
      (shakai, (''social1.png'', ''social2.png'')),
      (rika, (''science1.png'', ''science2.png'')),
      (eigo, (''eng1.png'', ''eng2.png'')),
      (gijutsu_katei, (''tech1.png'', ''tech2.png'')),
      (ongaku, (''music1.png'', ''music2.png'')),
      (hoken_taiiku, (''sport1.png'', ''sport2.png''))]"

definition VALID_SUBJECTS :: "pystr list" where
  "VALID_SUBJECTS = map fst SUBJECT_IMAGES"

text \<open>\<open>v in VALID_SUBJECTS\<close>: only a string can equal a key.\<close>

fun in_valid_subjects :: "pyval \<Rightarrow> bool" where
  "in_valid_subjects (VStr s) = (s \<in> set VALID_SUBJECTS)"
| "in_valid_subjects v = False"

subsection \<open>\<open>validate_data\<close> (\<open>pdf_generator/__init__.py\<close>)\<close>

definition required_fields :: "string list" where
  "required_fields =
     [''subject'', ''test_name'', ''score'', ''sc_year'', ''last_name'', ''first_name'']"

text \<open>The messages, in the order the source returns them.\<close>

definition msg_missing :: "string \<Rightarrow> pystr" where
  "msg_missing field =
     [0x5FC5, 0x9808, 0x30D5, 0x30A3, 0x30FC, 0x30EB, 0x30C9, 0x304C, 0x4E0D, 0x8DB3, 0x3057,
      0x3066, 0x3044, 0x307E, 0x3059, 0x3A, 0x20] @ ascii field"

definition msg_empty :: "string \<Rightarrow> pystr" where
  "msg_empty field = ascii field @ [0x304C, 0x7A7A, 0x3067, 0x3059]"

definition msg_invalid_subject :: "pyval \<Rightarrow> pystr" where
  "msg_invalid_subject v =
     [0x7121, 0x52B9, 0x306A, 0x6559, 0x79D1, 0x540D, 0x3067, 0x3059, 0x3A, 0x20] @ py_str v"

definition msg_score_range :: pystr where
  "msg_score_range =
     [0x70B9, 0x6570, 0x306F, 0x30, 0x304B, 0x3089, 0x31, 0x30, 0x30, 0x306E, 0x9593, 0x3067,
      0x3042, 0x308B, 0x5FC5, 0x8981, 0x304C, 0x3042, 0x308A, 0x307E, 0x3059]"

definition msg_score_integer :: pystr where
  "msg_score_integer =
     [0x70B9, 0x6570, 0x306F, 0x6574, 0x6570, 0x3067, 0x3042, 0x308B, 0x5FC5, 0x8981, 0x304C,
      0x3042, 0x308A, 0x307E, 0x3059]"

text \<open>
  The loop over the required fields: it returns at the first field that is absent or
  falsy.
\<close>

fun check_required :: "string list \<Rightarrow> pydict \<Rightarrow> pystr option" where
  "check_required [] data = None"
| "check_required (field # rest) data =
     (case data field of
        None \<Rightarrow> Some (msg_missing field)
      | Some v \<Rightarrow> if \<not> truthy v then Some (msg_empty field) else check_required rest data)"

text \<open>
  The subscripts \<open>data["subject"]\<close> and \<open>data["score"]\<close> raise \<open>KeyError\<close> on an absent
  key, and \<open>int\<close> raises \<open>TypeError\<close> on \<open>None\<close>; only \<open>ValueError\<close> is caught.
\<close>

definition validate_data :: "pydict \<Rightarrow> exc + pystr option" where
  "validate_data data =
     (case check_required required_fields data of
        Some m \<Rightarrow> Inr (Some m)
      | None \<Rightarrow>
          (case data ''subject'' of
             None \<Rightarrow> Inl (key_error ''subject'')
           | Some subj \<Rightarrow>
               if \<not> in_valid_subjects subj then Inr (Some (msg_invalid_subject subj))
               else (case data ''score'' of
                       None \<Rightarrow> Inl (key_error ''score'')
                     | Some sc \<Rightarrow>
                         (case py_int sc of
                            Inr score \<Rightarrow>
                              if \<not> (0 \<le> score \<and> score \<le> 100) then Inr (Some msg_score_range)
                              else Inr None
                          | Inl e \<Rightarrow>
                              if class_of e = ValueError then Inr (Some msg_score_integer)
                              else Inl e))))"

subsection \<open>\<open>validate_input\<close> (\<open>main.py\<close>)\<close>

definition msg_last_name :: pystr where
  "msg_last_name =
     [0x59D3, 0x3092, 0x5165, 0x529B, 0x3057, 0x3066, 0x304F, 0x3060, 0x3055, 0x3044]"

definition msg_first_name :: pystr where
  "msg_first_name =
     [0x540D, 0x3092, 0x5165, 0x529B, 0x3057, 0x3066, 0x304F, 0x3060, 0x3055, 0x3044]"

definition msg_score_input :: pystr where
  "msg_score_input =
     [0x70B9, 0x6570, 0x306F, 0x30, 0x304B, 0x3089, 0x31, 0x30, 0x30, 0x306E, 0x9593, 0x3067,
      0x5165, 0x529B, 0x3057, 0x3066, 0x304F, 0x3060, 0x3055, 0x3044]"

text \<open>\<open>0 <= v <= 100\<close>: an int is compared; a str or \<open>None\<close> raises \<open>TypeError\<close>.\<close>

fun score_in_range :: "pyval \<Rightarrow> exc + bool" where
  "score_in_range (VInt n) = Inr (0 \<le> n \<and> n \<le> 100)"
| "score_in_range (VStr s) = Inl (not_supported ''str'')"
| "score_in_range VNone = Inl (not_supported ''NoneType'')"

definition validate_input :: "pydict \<Rightarrow> exc + pystr list" where
  "validate_input vals =
     (case vals ''last_name'' of
        None \<Rightarrow> Inl (key_error ''last_name'')
      | Some lname \<Rightarrow>
          (case vals ''first_name'' of
             None \<Rightarrow> Inl (key_error ''first_name'')
           | Some fname \<Rightarrow>
               (case vals ''score'' of
                  None \<Rightarrow> Inl (key_error ''score'')
                | Some sc \<Rightarrow>
                    (case score_in_range sc of
                       Inl e \<Rightarrow> Inl e
                     | Inr ok \<Rightarrow>
                         Inr ((if \<not> truthy lname then [msg_last_name] else [])
                              @ (if \<not> truthy fname then [msg_first_name] else [])
                              @ (if \<not> ok then [msg_score_input] else []))))))"

section \<open>The table validator\<close>

text \<open>
  A cell of a table is missing (\<open>NaN\<close> or \<open>None\<close>), a finite number or a string. A table
  is its columns in order, each a label and its cells; the labels are taken to be
  distinct, as the readers make them. Numbers are rationals: every finite float is one,
  and infinities are outside the model.
\<close>

datatype cell = Null | Num rat | Str pystr

datatype number = NaN | Fin rat

type_synonym dataframe = "(string \<times> cell list) list"

definition columns :: "dataframe \<Rightarrow> string list" where
  "columns df = map fst df"

text \<open>\<open>df[col]\<close> raises \<open>KeyError\<close> on a label that is not a column.\<close>

definition get_column :: "dataframe \<Rightarrow> string \<Rightarrow> exc + cell list" where
  "get_column df col = (case map_of df col of None \<Rightarrow> Inl (key_error col) | Some cs \<Rightarrow> Inr cs)"

text \<open>\<open>df[col] = cells\<close> replaces the column in place, or appends a new one.\<close>

definition set_column :: "dataframe \<Rightarrow> string \<Rightarrow> cell list \<Rightarrow> dataframe" where
  "set_column df col cs = AList.update col cs df"

subsection \<open>\<open>pd.to_numeric\<close>, \<open>between\<close>, \<open>isna\<close>\<close>

text \<open>
  \<open>pd.to_numeric\<close> with its default \<open>errors="raise"\<close> keeps numbers and missing cells and
  parses strings; the first string it cannot parse raises \<open>ValueError\<close> with its
  position. The grammar of numeric strings belongs to pandas and is a parameter:
  \<open>parse s\<close> is \<open>None\<close> when \<open>s\<close> is not numeric.
\<close>

fun coerce :: "(pystr \<Rightarrow> number option) \<Rightarrow> cell \<Rightarrow> number option" where
  "coerce parse Null = Some NaN"
| "coerce parse (Num r) = Some (Fin r)"
| "coerce parse (Str s) = parse s"

fun cell_text :: "cell \<Rightarrow> pystr" where
  "cell_text (Str s) = s"
| "cell_text c = []"

definition unable_to_parse :: "cell \<Rightarrow> nat \<Rightarrow> exc" where
  "unable_to_parse c i =
     Exc ValueError
       (ascii ''Unable to parse string '' @ [34] @ cell_text c @ [34] @ ascii '' at position ''
        @ str_int (int i))"

fun to_numeric_from :: "(pystr \<Rightarrow> number option) \<Rightarrow> nat \<Rightarrow> cell list \<Rightarrow> exc + number list" where
  "to_numeric_from parse i [] = Inr []"
| "to_numeric_from parse i (c # cs) =
     (case coerce parse c of
        None \<Rightarrow> Inl (unable_to_parse c i)
      | Some x \<Rightarrow> map_sum id (Cons x) (to_numeric_from parse (Suc i) cs))"

definition to_numeric :: "(pystr \<Rightarrow> number option) \<Rightarrow> cell list \<Rightarrow> exc + number list" where
  "to_numeric parse cs = to_numeric_from parse 0 cs"

fun cell_of :: "number \<Rightarrow> cell" where
  "cell_of NaN = Null"
| "cell_of (Fin r) = Num r"

text \<open>\<open>Series.between(lo, hi)\<close> is inclusive on both sides and false on \<open>NaN\<close>.\<close>

fun between :: "rat \<Rightarrow> rat \<Rightarrow> number \<Rightarrow> bool" where
  "between lo hi NaN = False"
| "between lo hi (Fin r) = (lo \<le> r \<and> r \<le> hi)"

fun isna :: "cell \<Rightarrow> bool" where
  "isna Null = True"
| "isna (Num r) = False"
| "isna (Str s) = False"

fun is_str :: "cell \<Rightarrow> bool" where
  "is_str (Str s) = True"
| "is_str c = False"

subsection \<open>\<open>validate_dataframe\<close>\<close>

text \<open>
  The validator returns one message or \<open>None\<close>. The messages are the constructors of
  \<open>table_error\<close>: the two that list names join a Python set, whose order is not fixed,
  so they carry the set. \<open>ValidationException e\<close> is the message the \<open>except\<close> clause
  builds from \<open>str(e)\<close>.
\<close>

datatype table_error =
  MissingColumns "string set"
  | ScoreOutOfRange
  | NullValues string
  | InvalidSubjects "cell set"
  | ValidationException exc

text \<open>The loop of the null check: it returns at the first column with a missing cell.\<close>

fun first_null_column :: "dataframe \<Rightarrow> string list \<Rightarrow> exc + string option" where
  "first_null_column df [] = Inr None"
| "first_null_column df (col # rest) =
     (case get_column df col of
        Inl e \<Rightarrow> Inl e
      | Inr cs \<Rightarrow> if list_ex isna cs then Inr (Some col) else first_null_column df rest)"

text \<open>
  The subject check. \<open>', '.join\<close> raises \<open>TypeError\<close> when an element of the set is not a
  string, and every such element is in the set, since the valid subjects are strings.
  The text of that error names the position of the element in the set's order and is
  shortened here.
\<close>

definition join_type_error :: exc where
  "join_type_error = Exc TypeError (ascii ''sequence item: expected str instance'')"

definition check_subjects :: "pystr list \<Rightarrow> cell list \<Rightarrow> table_error option" where
  "check_subjects subjects subj =
     (let invalid_subjects = set subj - Str ` set subjects in
      if invalid_subjects = {} then None
      else if list_ex (\<lambda>c. \<not> is_str c) subj then Some (ValidationException join_type_error)
      else Some (InvalidSubjects invalid_subjects))"

text \<open>
  The checks the two validators share, from the column-set check on. They take the
  table and return it with the result, since
  \<open>df["score"] = pd.to_numeric(df["score"])\<close> writes into the caller's table. The
  column-set check stands before the \<open>try\<close> block; inside it every exception becomes a
  message. \<open>subjects\<close> are the valid subject names the validator has at hand.
\<close>

definition table_checks ::
  "pystr list \<Rightarrow> (pystr \<Rightarrow> number option) \<Rightarrow> string list \<Rightarrow> string list \<Rightarrow> dataframe
     \<Rightarrow> dataframe \<times> table_error option" where
  "table_checks subjects parse required_columns null_columns df =
     (let missing_columns = set required_columns - set (columns df) in
      if missing_columns \<noteq> {} then (df, Some (MissingColumns missing_columns))
      else
        (case get_column df ''score'' of
           Inl e \<Rightarrow> (df, Some (ValidationException e))
         | Inr score \<Rightarrow>
             (case to_numeric parse score of
                Inl e \<Rightarrow> (df, Some (ValidationException e))
              | Inr nums \<Rightarrow>
                  (let df1 = set_column df ''score'' (map cell_of nums) in
                   if \<not> list_all (between 0 100) nums then (df1, Some ScoreOutOfRange)
                   else
                     (case first_null_column df1 null_columns of
                        Inl e \<Rightarrow> (df1, Some (ValidationException e))
                      | Inr (Some col) \<Rightarrow> (df1, Some (NullValues col))
                      | Inr None \<Rightarrow>
                          (case get_column df1 ''subject'' of
                             Inl e \<Rightarrow> (df1, Some (ValidationException e))
                           | Inr subj \<Rightarrow> (df1, check_subjects subjects subj)))))))"

text \<open>
  \<open>validate_dataframe(df, required_columns)\<close> of \<open>utils/file_processor.py\<close>, the one
  \<open>main.py\<close> calls: its null check runs over five fixed columns, and the valid subjects
  are its own list \<open>valid_subjects\<close> (lines 65 to 74).
\<close>

definition valid_subjects :: "pystr list" where
  "valid_subjects =
     [kokugo, sugaku, shakai, rika, eigo, gijutsu_katei, ongaku, hoken_taiiku]"

definition validate_dataframe ::
  "(pystr \<Rightarrow> number option) \<Rightarrow> dataframe \<Rightarrow> string list \<Rightarrow> dataframe \<times> table_error option" where
  "validate_dataframe parse df required_columns =
     table_checks valid_subjects parse required_columns
       [''subject'', ''test_name'', ''sc_year'', ''last_name'', ''first_name''] df"

text \<open>
  \<open>validate_dataframe(df)\<close> of \<open>utils/__init__.py\<close>. Its first statement, before the
  \<open>try\<close> block, is \<open>from pdf_generator import VALID_SUBJECTS\<close>, so the call begins by
  importing the package \<open>pdf_generator\<close>, whose \<open>__init__.py\<close> imports \<open>generator.py\<close>.
  The outcome of that import is the parameter \<open>imported\<close>: the exception it raises,
  which the call raises in turn without touching the table, or the keys of
  \<open>VALID_SUBJECTS\<close>. As the repository stands the import raises, because
  \<open>generator.py\<close> does not compile (the call in its lines 362 to 366 is not closed).
  After the import the required columns are the constant \<open>REQUIRED_COLUMNS\<close>, and the
  null check runs over all of them.
\<close>

definition REQUIRED_COLUMNS :: "string list" where
  "REQUIRED_COLUMNS =
     [''subject'', ''test_name'', ''score'', ''sc_year'', ''last_name'', ''first_name'']"

definition utils_validate_dataframe ::
  "exc + pystr list \<Rightarrow> (pystr \<Rightarrow> number option) \<Rightarrow> dataframe
     \<Rightarrow> dataframe \<times> (exc + table_error option)" where
  "utils_validate_dataframe imported parse df =
     (case imported of
        Inl e \<Rightarrow> (df, Inl e)
      | Inr subjects \<Rightarrow>
          (case table_checks subjects parse REQUIRED_COLUMNS REQUIRED_COLUMNS df of
             (df1, result) \<Rightarrow> (df1, Inr result)))"

section \<open>The encoding detector\<close>

text \<open>
  The file object is its bytes and its read position. \<open>chardet.detect\<close> is a parameter:
  its answer on a buffer is a label or \<open>None\<close>. \<open>str.lower\<close> is modelled on the ASCII
  letters, which decides membership in the allow-list exactly: no other character
  lowers to one of the letters the three allowed labels are made of.
\<close>

record stream =
  content :: "nat list"
  pos :: nat

definition lower :: "pystr \<Rightarrow> pystr" where
  "lower s = map (\<lambda>c. if 65 \<le> c \<and> c \<le> 90 then c + 32 else c) s"

definition ALLOWED_ENCODINGS :: "pystr list" where
  "ALLOWED_ENCODINGS = [ascii ''utf-8'', ascii ''shift-jis'', ascii ''shift_jis'']"

definition none_has_no_lower :: exc where
  "none_has_no_lower =
     Exc AttributeError
       (ascii (quoted ''NoneType'' @ '' object has no attribute '' @ quoted ''lower''))"

text \<open>
  \<open>detect_encoding\<close> of \<open>utils/file_processor.py\<close>, the one \<open>main.py\<close> calls. It returns
  the label as the guesser wrote it. When the label is \<open>None\<close> the call of \<open>lower\<close>
  raises, and the last \<open>seek(0)\<close> is not reached.
\<close>

definition detect_encoding ::
  "(nat list \<Rightarrow> pystr option) \<Rightarrow> stream \<Rightarrow> (exc + pystr) \<times> stream" where
  "detect_encoding chardet file_obj =
     (let raw_data = content file_obj in
      case chardet raw_data of
        None \<Rightarrow> (Inl none_has_no_lower, file_obj\<lparr>pos := length raw_data\<rparr>)
      | Some encoding \<Rightarrow>
          (Inr (if lower encoding \<notin> set ALLOWED_ENCODINGS then ascii ''utf-8'' else encoding),
           file_obj\<lparr>pos := 0\<rparr>))"

text \<open>
  \<open>detect_encoding\<close> of \<open>utils/__init__.py\<close>: it returns the lowered label, wraps every
  exception into \<open>FileProcessError\<close>, and its \<open>finally\<close> clause always rewinds.
\<close>

definition msg_detect_failed :: "exc \<Rightarrow> pystr" where
  "msg_detect_failed e =
     [0x30A8, 0x30F3, 0x30B3, 0x30FC, 0x30C7, 0x30A3, 0x30F3, 0x30B0, 0x306E, 0x691C, 0x51FA,
      0x306B, 0x5931, 0x6557, 0x3057, 0x307E, 0x3057, 0x305F, 0x3A, 0x20] @ str_exc e"

definition utils_detect_encoding ::
  "(nat list \<Rightarrow> pystr option) \<Rightarrow> stream \<Rightarrow> (exc + pystr) \<times> stream" where
  "utils_detect_encoding chardet file_obj =
     (let raw_data = content file_obj in
      case chardet raw_data of
        None \<Rightarrow>
          (Inl (Exc FileProcessError (msg_detect_failed none_has_no_lower)),
           file_obj\<lparr>pos := 0\<rparr>)
      | Some encoding \<Rightarrow>
          (let detected_encoding = lower encoding in
           (Inr (if detected_encoding \<in> set ALLOWED_ENCODINGS then detected_encoding
                 else ascii ''utf-8''),
            file_obj\<lparr>pos := 0\<rparr>)))"

section \<open>The template renderer\<close>

subsection \<open>\<open>str.replace\<close>, \<open>str.split\<close> and the substring test\<close>

text \<open>
  \<open>s.replace(old, new)\<close> scans from the left and replaces every occurrence of \<open>old\<close>
  that does not overlap an earlier one; with an empty \<open>old\<close> it puts \<open>new\<close> before every
  character and at the end.
\<close>

function py_replace :: "'a list \<Rightarrow> 'a list \<Rightarrow> 'a list \<Rightarrow> 'a list" where
  "py_replace old new [] = (if old = [] then new else [])"
| "py_replace old new (c # cs) =
     (if old = [] then new @ c # py_replace old new cs
      else if prefix old (c # cs) then new @ py_replace old new (drop (length old) (c # cs))
      else c # py_replace old new cs)"
  by pat_completeness auto
termination
  by (relation "measure (\<lambda>(old, new, s). length s)") (auto simp: prefix_def)

text \<open>
  \<open>s.split(sep)\<close> for a non-empty \<open>sep\<close>: the pieces between the occurrences of \<open>sep\<close>,
  found from the left. \<open>cur\<close> is the piece being read.
\<close>

function split_from :: "'a list \<Rightarrow> 'a list \<Rightarrow> 'a list \<Rightarrow> 'a list list" where
  "split_from sep cur [] = [cur]"
| "split_from sep cur (c # cs) =
     (if sep \<noteq> [] \<and> prefix sep (c # cs)
      then cur # split_from sep [] (drop (length sep) (c # cs))
      else split_from sep (cur @ [c]) cs)"
  by pat_completeness auto
termination
  by (relation "measure (\<lambda>(sep, cur, s). length s)") (auto simp: prefix_def)

definition py_split :: "pystr \<Rightarrow> pystr \<Rightarrow> exc + pystr list" where
  "py_split sep s =
     (if sep = [] then Inl (Exc ValueError (ascii ''empty separator''))
      else Inr (split_from sep [] s))"

text \<open>\<open>sub in s\<close> on strings.\<close>

fun contains :: "'a list \<Rightarrow> 'a list \<Rightarrow> bool" where
  "contains sub [] = (sub = [])"
| "contains sub (c # cs) = (prefix sub (c # cs) \<or> contains sub cs)"

subsection \<open>The external collaborators\<close>

text \<open>
  What \<open>generate_pdf\<close> takes from outside the repository's code: the directory of the
  package, the file system (a read gives the content or raises with the cause), the
  library functions \<open>base64.b64encode\<close> and \<open>re.sub\<close>, and the headless browser that turns
  the markup into PDF bytes or fails.
\<close>

record env =
  package_dir :: pystr
  read_text :: "pystr \<Rightarrow> exc + pystr"
  read_bytes :: "pystr \<Rightarrow> exc + nat list"
  b64encode :: "nat list \<Rightarrow> pystr"
  re_sub :: "pystr \<Rightarrow> pystr \<Rightarrow> pystr \<Rightarrow> pystr"
  render_pdf :: "pystr \<Rightarrow> exc + nat list"

text \<open>\<open>os.path.join\<close> on two components, with the separator \<open>/\<close>.\<close>

definition path_join :: "pystr \<Rightarrow> pystr \<Rightarrow> pystr" where
  "path_join a b =
     (if prefix [47] b then b
      else if a = [] \<or> last a = 47 then a @ b
      else a @ [47] @ b)"

definition TEMPLATES_DIR :: "env \<Rightarrow> pystr" where
  "TEMPLATES_DIR E = path_join (package_dir E) (ascii ''templates'')"

definition IMAGES_DIR :: "env \<Rightarrow> pystr" where
  "IMAGES_DIR E = path_join (TEMPLATES_DIR E) (ascii ''images'')"

definition CSS_DIR :: "env \<Rightarrow> pystr" where
  "CSS_DIR E = path_join (TEMPLATES_DIR E) (ascii ''css'')"

definition get_template_path :: "env \<Rightarrow> string \<Rightarrow> string \<Rightarrow> pystr" where
  "get_template_path E template_type filename =
     (if template_type = ''images'' then path_join (IMAGES_DIR E) (ascii filename)
      else if template_type = ''css'' then path_join (CSS_DIR E) (ascii filename)
      else path_join (TEMPLATES_DIR E) (ascii filename))"

subsection \<open>\<open>encode_image_to_base64\<close>\<close>

text \<open>
  The function returns the encoded image with the lines it printed. Every exception
  of the read is caught: a warning is printed and the empty string returned.
\<close>

definition could_not_load :: "pystr \<Rightarrow> exc \<Rightarrow> pystr" where
  "could_not_load image_path e =
     ascii ''Warning: Could not load image '' @ image_path @ ascii '': '' @ str_exc e"

definition encode_image_to_base64 :: "env \<Rightarrow> pystr \<Rightarrow> pystr \<times> pystr list" where
  "encode_image_to_base64 E image_path =
     (case read_bytes E image_path of
        Inr raw \<Rightarrow> (b64encode E raw, [])
      | Inl e \<Rightarrow> ([], [could_not_load image_path e]))"

subsection \<open>The literals of \<open>generate_pdf\<close>\<close>

definition FONT_SIZES_name :: int where "FONT_SIZES_name = 36"
definition FONT_SIZES_year :: int where "FONT_SIZES_year = 36"
definition FONT_SIZES_honorific :: int where "FONT_SIZES_honorific = 29"

definition LAYOUT_content_width :: int where "LAYOUT_content_width = 77"
definition LAYOUT_name_width :: int where "LAYOUT_name_width = 180"
definition LAYOUT_margin :: int where "LAYOUT_margin = 20"
definition LAYOUT_name_space :: int where "LAYOUT_name_space = 18"

text \<open>\<open>MULTILINE_SUBJECTS\<close>: the two subjects written on two lines.\<close>

definition MULTILINE_SUBJECTS :: "(pystr \<times> pystr) list" where
  "MULTILINE_SUBJECTS =
     [(gijutsu_katei, [0x6280, 0x8853, 10, 0x5BB6, 0x5EAD]),
      (hoken_taiiku, [0x4FDD, 0x5065, 10, 0x4F53, 0x80B2])]"

text \<open>
  The template type that selects the score-up display, the plain markup of the point
  placeholder and the two-part markup that replaces it.
\<close>

definition score_up_display :: pystr where
  "score_up_display = [0x70B9, 0x6570, 0x30A2, 0x30C3, 0x30D7, 0x63B2, 0x793A]"

definition point_plain :: pystr where
  \<open>point_plain = ascii ''<span class="point">'' @ [0x70B9] @ ascii ''</span>''\<close>

definition point_up :: pystr where
  \<open>point_up =
     ascii ''<span class="point point-up"><span class="ten">'' @ [0x70B9]
     @ ascii ''</span><span class="up">UP</span></span>''\<close>

text \<open>The CSS appended for the score-up display (lines 77 to 129).\<close>

definition additional_css :: pystr where
  "additional_css =
     [10] @
     ascii ''        /* '' @ [0x30B9, 0x30B3, 0x30A2, 0x5168, 0x4F53, 0x306E, 0x30EC, 0x30A4, 0x30A2, 0x30A6, 0x30C8, 0x8ABF, 0x6574] @ ascii '' */'' @ [10] @
     ascii ''    .score-container {'' @ [10] @
     ascii ''        position: relative;'' @ [10] @
     ascii ''        width: 600px;  /* '' @ [0x30B9, 0x30B3, 0x30A2, 0x8868, 0x793A, 0x30A8, 0x30EA, 0x30A2, 0x306E, 0x5E45, 0x3092, 0x78BA, 0x4FDD] @ ascii '' */'' @ [10] @
     ascii ''    }'' @ [10] @
     ascii ''        /* '' @ [0x70B9, 0x6570, 0x8868, 0x793A, 0x306E, 0x30B3, 0x30F3, 0x30C6, 0x30CA] @ ascii '' */'' @ [10] @
     ascii ''        .score {'' @ [10] @
     ascii ''        width: 485px;'' @ [10] @
     ascii ''        color: rgba(255,0,0,1);'' @ [10] @
     ascii ''        position: absolute;'' @ [10] @
     ascii ''        top: 136px;'' @ [10] @
     ascii ''        left: 178px;'' @ [10] @
     ascii ''        text-shadow: 8px 6px 6px rgba(0, 0, 0, 0.25);'' @ [10] @
     ascii ''        font-family: Inter;'' @ [10] @
     ascii ''        font-weight: Bold Italic;'' @ [10] @
     ascii ''        font-size: 227px;'' @ [10] @
     ascii ''        opacity: 1;'' @ [10] @
     ascii ''        text-align: center;'' @ [10] @
     ascii ''        } '' @ [10] @
     [10] @
     ascii ''        /* '' @ [0x70B9] @ ascii ''UP'' @ [0x306E, 0x30B3, 0x30F3, 0x30C6, 0x30CA] @ ascii '' */'' @ [10] @
     ascii ''        .point.point-up {'' @ [10] @
     ascii ''        position: absolute;'' @ [10] @
     ascii ''        top: 328px;'' @ [10] @
     ascii ''        left: 610px;  /* '' @ [0x5143, 0x306E] @ ascii ''.point'' @ [0x3068, 0x540C, 0x3058, 0x4F4D, 0x7F6E] @ ascii '' */'' @ [10] @
     ascii ''        display: flex;'' @ [10] @
     ascii ''        align-items: baseline;'' @ [10] @
     ascii ''        white-space: nowrap;'' @ [10] @
     ascii ''        font-family: Inter;'' @ [10] @
     ascii ''        font-weight: Bold Italic;'' @ [10] @
     ascii ''        }'' @ [10] @
     [10] @
     ascii ''        /* '' @ [0x70B9, 0x306E, 0x6587, 0x5B57] @ ascii '' */'' @ [10] @
     ascii ''        .point.point-up .ten {'' @ [10] @
     ascii ''            font-size: 104px;'' @ [10] @
     ascii ''            line-height: 1;'' @ [10] @
     ascii ''            color: black;'' @ [10] @
     ascii ''            font-family: Inter;'' @ [10] @
     ascii ''            font-weight: Bold Italic;'' @ [10] @
     ascii ''        }'' @ [10] @
     [10] @
     ascii ''        /* UP'' @ [0x306E, 0x6587, 0x5B57] @ ascii '' */'' @ [10] @
     ascii ''        .point.point-up .up {'' @ [10] @
     ascii ''            font-size: 60px; '' @ [10] @
     ascii ''            line-height: 1;'' @ [10] @
     ascii ''            color: black;'' @ [10] @
     ascii ''            font-family: Inter;'' @ [10] @
     ascii ''            font-weight: Bold Italic;'' @ [10] @
     ascii ''            margin-left: 5px;'' @ [10] @
     ascii ''        }'' @ [10] @
     [10] @
     ascii ''        ''"

text \<open>The CSS of the ribbon, name and grade regions (lines 213 to 289).\<close>

definition layout_css :: pystr where
  "layout_css =
     [10] @
     ascii ''        .ribbon {'' @ [10] @
     ascii ''            width: 660px;'' @ [10] @
     ascii ''            height: 106px;'' @ [10] @
     ascii ''            background-repeat: no-repeat;'' @ [10] @
     ascii ''            background-position: center center;'' @ [10] @
     ascii ''            background-size: cover;'' @ [10] @
     ascii ''            position: absolute;'' @ [10] @
     ascii ''            top: 446px;'' @ [10] @
     ascii ''            left: 91px;'' @ [10] @
     ascii ''            display: flex;'' @ [10] @
     ascii ''            justify-content: center;'' @ [10] @
     ascii ''            align-items: flex-end;'' @ [10] @
     ascii ''        }'' @ [10] @
     [10] @
     ascii ''        .name-content {'' @ [10] @
     ascii ''            display: flex;'' @ [10] @
     ascii ''            align-items: center;'' @ [10] @
     ascii ''            justify-content: center;'' @ [10] @
     ascii ''            width: '' @ str_int LAYOUT_content_width @ ascii ''%;'' @ [10] @
     ascii ''            height: 66px;'' @ [10] @
     ascii ''            padding: 0 '' @ str_int LAYOUT_margin @ ascii ''px;'' @ [10] @
     ascii ''            box-sizing: border-box;'' @ [10] @
     ascii ''        }'' @ [10] @
     [10] @
     ascii ''        .name-group {'' @ [10] @
     ascii ''            display: flex;'' @ [10] @
     ascii ''            align-items: center;'' @ [10] @
     ascii ''            justify-content: center;'' @ [10] @
     ascii ''            margin: 0 '' @ str_int LAYOUT_name_space @ ascii ''px;'' @ [10] @
     ascii ''            flex: 1;'' @ [10] @
     ascii ''            width: '' @ str_int LAYOUT_content_width @ ascii ''%;'' @ [10] @
     ascii ''            height: 66px;'' @ [10] @
     ascii ''        }'' @ [10] @
     [10] @
     ascii ''        /* '' @ [0x56FA, 0x5B9A, 0x30B5, 0x30A4, 0x30BA, 0x306E, 0x30C6, 0x30AD, 0x30B9, 0x30C8, 0x8981, 0x7D20] @ ascii '' */'' @ [10] @
     ascii ''        .sc_year, .honorific {'' @ [10] @
     ascii ''            color: rgba(255,255,255,1);'' @ [10] @
     ascii ''            font-family: Inter;'' @ [10] @
     ascii ''            font-weight: Bold Italic;'' @ [10] @
     ascii ''            white-space: nowrap;'' @ [10] @
     ascii ''            display: inline-flex;'' @ [10] @
     ascii ''            align-items: center;'' @ [10] @
     ascii ''            justify-content: center;'' @ [10] @
     ascii ''        }'' @ [10] @
     [10] @
     ascii ''        .sc_year {'' @ [10] @
     ascii ''            font-size: '' @ str_int FONT_SIZES_year @ ascii ''px;'' @ [10] @
     ascii ''            height: '' @ str_int FONT_SIZES_year @ ascii ''px;'' @ [10] @
     ascii ''            line-height: '' @ str_int FONT_SIZES_year @ ascii ''px;'' @ [10] @
     ascii ''            min-width: 80px;'' @ [10] @
     ascii ''            margin-left: '' @ str_int LAYOUT_margin @ ascii ''px;'' @ [10] @
     ascii ''        }'' @ [10] @
     [10] @
     ascii ''        .honorific {'' @ [10] @
     ascii ''            font-size: '' @ str_int FONT_SIZES_honorific @ ascii ''px;'' @ [10] @
     ascii ''            height: '' @ str_int FONT_SIZES_honorific @ ascii ''px;'' @ [10] @
     ascii ''            line-height: '' @ str_int FONT_SIZES_honorific @ ascii ''px;'' @ [10] @
     ascii ''            min-width: 50px;'' @ [10] @
     ascii ''            margin-left: '' @ str_int LAYOUT_name_space @ ascii ''px;'' @ [10] @
     ascii ''        }'' @ [10] @
     [10] @
     ascii ''        /* '' @ [0x59D3, 0x540D, 0x8981, 0x7D20] @ ascii '' */'' @ [10] @
     ascii ''        .last_name, .first_name {'' @ [10] @
     ascii ''            display: flex;'' @ [10] @
     ascii ''            align-items: center;'' @ [10] @
     ascii ''            justify-content: center;'' @ [10] @
     ascii ''            width: '' @ str_int LAYOUT_name_width @ ascii ''px;'' @ [10] @
     ascii ''            height: 40px;'' @ [10] @
     ascii ''            font-size: '' @ str_int FONT_SIZES_name @ ascii ''px;'' @ [10] @
     ascii ''            color: rgba(255,255,255,1);'' @ [10] @
     ascii ''            font-family: Inter;'' @ [10] @
     ascii ''            font-weight: Bold Italic;'' @ [10] @
     ascii ''            white-space: nowrap;'' @ [10] @
     ascii ''            text-align: center;'' @ [10] @
     ascii ''        }'' @ [10] @
     ascii ''    ''"

text \<open>The two styles of the subject (lines 293 to 326).\<close>

definition multiline_subject_css :: pystr where
  "multiline_subject_css =
     [10] @
     ascii ''            .subject {'' @ [10] @
     ascii ''                position: absolute;'' @ [10] @
     ascii ''                white-space: pre-line;'' @ [10] @
     ascii ''                text-align: center;'' @ [10] @
     ascii ''                width: 150px;'' @ [10] @
     ascii ''                top: 140px;'' @ [10] @
     ascii ''                left: 36px;'' @ [10] @
     ascii ''                line-height: 1.2;'' @ [10] @
     ascii ''                font-size: 38px;'' @ [10] @
     ascii ''                display: flex;'' @ [10] @
     ascii ''                flex-direction: column;'' @ [10] @
     ascii ''                justify-content: center;'' @ [10] @
     ascii ''                align-items: center;'' @ [10] @
     ascii ''                color: rgba(255,255,255,1);'' @ [10] @
     ascii ''                font-family: Inter;'' @ [10] @
     ascii ''                font-weight: Bold Italic;'' @ [10] @
     ascii ''            }'' @ [10] @
     ascii ''        ''"

definition single_line_subject_css :: pystr where
  "single_line_subject_css =
     [10] @
     ascii ''            .subject {'' @ [10] @
     ascii ''                position: absolute;'' @ [10] @
     ascii ''                white-space: nowrap;'' @ [10] @
     ascii ''                text-align: center;'' @ [10] @
     ascii ''                width: 150px;'' @ [10] @
     ascii ''                top: 155px;'' @ [10] @
     ascii ''                left: 36px;'' @ [10] @
     ascii ''                font-size: 38px;'' @ [10] @
     ascii ''                color: rgba(255,255,255,1);'' @ [10] @
     ascii ''                font-family: Inter;'' @ [10] @
     ascii ''                font-weight: Bold Italic;'' @ [10] @
     ascii ''            }'' @ [10] @
     ascii ''        ''"

text \<open>
  The document shell (lines 336 to 357): the text before the CSS, between the CSS and
  the interior of the body, and after it.
\<close>

definition shell_head :: pystr where
  "shell_head =
     [10] @
     ascii ''    <!DOCTYPE html>'' @ [10] @
     ascii ''    <html>'' @ [10] @
     ascii ''        <head>'' @ [10] @
     ascii ''            <meta charset='' @ [34] @ ascii ''UTF-8'' @ [34] @ ascii ''>'' @ [10] @
     ascii ''            <link href='' @ [34] @ ascii ''https://fonts.googleapis.com/css?family=Inter&display=swap'' @ [34] @ ascii '' rel='' @ [34] @ ascii ''stylesheet'' @ [34] @ ascii '' />'' @ [10] @
     ascii ''            <style>'' @ [10] @
     ascii ''                ''"

definition shell_middle :: pystr where
  "shell_middle =
     [10] @
     ascii ''                html, body {'' @ [10] @
     ascii ''                    margin: 0;'' @ [10] @
     ascii ''                    padding: 0;'' @ [10] @
     ascii ''                    width: 842px;'' @ [10] @
     ascii ''                    height: 595px;'' @ [10] @
     ascii ''                    overflow: hidden;'' @ [10] @
     ascii ''                }'' @ [10] @
     ascii ''            </style>'' @ [10] @
     ascii ''        </head>'' @ [10] @
     ascii ''        <body>'' @ [10] @
     ascii ''            ''"

definition shell_tail :: pystr where
  "shell_tail =
     [10] @
     ascii ''        </body>'' @ [10] @
     ascii ''    </html>'' @ [10] @
     ascii ''    ''"

definition html_with_css :: "pystr \<Rightarrow> pystr \<Rightarrow> pystr" where
  "html_with_css css_content body =
     shell_head @ css_content @ shell_middle @ body @ shell_tail"

text \<open>The patterns and replacements of the two \<open>re.sub\<close> calls, and the data URL.\<close>

definition medal_pattern :: pystr where
  "medal_pattern =
     ascii ''('' @ [92] @ ascii ''.medal'' @ [92] @ ascii ''s*{[^}]*background:'' @ [92]
     @ ascii ''s*)url'' @ [92] @ ascii ''('' @ [34] @ ascii ''[^'' @ [34] @ ascii '']*''
     @ [34, 92] @ ascii '')([^}]*})''"

definition ribbon_pattern :: pystr where
  "ribbon_pattern =
     ascii ''('' @ [92] @ ascii ''.ribbon'' @ [92] @ ascii ''s*{[^}]*background:'' @ [92]
     @ ascii ''s*)url'' @ [92] @ ascii ''('' @ [34] @ ascii ''[^'' @ [34] @ ascii '']*''
     @ [34, 92] @ ascii '')([^}]*})''"

definition data_url :: "pystr \<Rightarrow> pystr" where
  \<open>data_url b64 = ascii ''url("data:image/png;base64,'' @ b64 @ ascii ''")''\<close>

definition group_repl :: "pystr \<Rightarrow> pystr" where
  "group_repl b64 = [92] @ ascii ''1'' @ data_url b64 @ [92] @ ascii ''2''"

subsection \<open>The steps of \<open>generate_pdf\<close>\<close>

text \<open>
  Lines 75 to 136: for the score-up display the CSS gets the additional fragment and the
  point placeholder of the HTML is rewritten.
\<close>

definition template_type_step :: "pydict \<Rightarrow> pystr \<times> pystr \<Rightarrow> pystr \<times> pystr" where
  "template_type_step data ch =
     (if data ''template_type'' = Some (VStr score_up_display)
      then (fst ch @ additional_css, py_replace point_plain point_up (snd ch))
      else ch)"

text \<open>Lines 140 to 163: the six placeholders, each subscript raising on an absent key.\<close>

definition substitute :: "pydict \<Rightarrow> string \<Rightarrow> pystr \<Rightarrow> exc + pystr" where
  "substitute data field html_content =
     (case data field of
        None \<Rightarrow> Inl (key_error field)
      | Some v \<Rightarrow>
          Inr (py_replace (ascii (''['' @ field @ '']{.'' @ field @ ''}'')) (py_str v)
                 html_content))"

fun substitute_all :: "pydict \<Rightarrow> string list \<Rightarrow> pystr \<Rightarrow> exc + pystr" where
  "substitute_all data [] html_content = Inr html_content"
| "substitute_all data (field # rest) html_content =
     (case substitute data field html_content of
        Inl e \<Rightarrow> Inl e
      | Inr h \<Rightarrow> substitute_all data rest h)"

definition substitute_fields :: "pydict \<Rightarrow> pystr \<Rightarrow> exc + pystr" where
  "substitute_fields data html_content =
     substitute_all data
       [''sc_year'', ''last_name'', ''first_name'', ''subject'', ''test_name'', ''score'']
       html_content"

text \<open>Line 167: \<open>SUBJECT_IMAGES.get(subject, SUBJECT_IMAGES[k])\<close> with the first subject.\<close>

fun subject_images_of :: "pyval \<Rightarrow> string \<times> string" where
  "subject_images_of (VStr s) =
     (case map_of SUBJECT_IMAGES s of
        Some files \<Rightarrow> files
      | None \<Rightarrow> (''n_lang1.png'', ''n_lang2.png''))"
| "subject_images_of v = (''n_lang1.png'', ''n_lang2.png'')"

text \<open>
  Lines 170 to 190: the four images (medal, crest, ribbon, twinkle) are encoded, and the
  source does it twice.
\<close>

definition load_images ::
  "env \<Rightarrow> string \<times> string \<Rightarrow> (pystr \<times> pystr \<times> pystr \<times> pystr) \<times> pystr list" where
  "load_images E subject_images =
     (let medal = encode_image_to_base64 E (get_template_path E ''images'' (fst subject_images));
          crest = encode_image_to_base64 E (get_template_path E ''images'' ''crest.png'');
          ribbon = encode_image_to_base64 E (get_template_path E ''images'' (snd subject_images));
          twinkle = encode_image_to_base64 E (get_template_path E ''images'' ''twinkle.png'')
      in ((fst medal, fst crest, fst ribbon, fst twinkle),
          snd medal @ snd crest @ snd ribbon @ snd twinkle))"

text \<open>Lines 193 to 210: the images are spliced into the CSS.\<close>

definition splice_images :: "env \<Rightarrow> pystr \<times> pystr \<times> pystr \<times> pystr \<Rightarrow> pystr \<Rightarrow> pystr" where
  \<open>splice_images E image_files css_content =
     (case image_files of
        (medal, crest, ribbon, twinkle) \<Rightarrow>
          py_replace (ascii ''url("../images/twinkle.png")'') (data_url twinkle)
            (py_replace (ascii ''url("../images/crest.png")'') (data_url crest)
               (re_sub E ribbon_pattern (group_repl ribbon)
                  (re_sub E medal_pattern (group_repl medal) css_content))))\<close>

text \<open>Lines 292 to 333: the style of the subject, and its two-line form in the HTML.\<close>

fun multiline_subject :: "pyval \<Rightarrow> pystr option" where
  "multiline_subject (VStr s) = map_of MULTILINE_SUBJECTS s"
| "multiline_subject v = None"

definition subject_css :: "pyval \<Rightarrow> pystr" where
  "subject_css subject =
     (if multiline_subject subject \<noteq> None then multiline_subject_css
      else single_line_subject_css)"

definition subject_span :: "pystr \<Rightarrow> pystr" where
  \<open>subject_span text = ascii ''<span class="subject">'' @ text @ ascii ''</span>''\<close>

definition multiline_step :: "pyval \<Rightarrow> pystr \<Rightarrow> pystr" where
  "multiline_step subject html_content =
     (case multiline_subject subject of
        Some two_lines \<Rightarrow>
          py_replace (subject_span (py_str subject)) (subject_span two_lines) html_content
      | None \<Rightarrow> html_content)"

text \<open>
  Line 354: \<open>html_content.split('<body>')[1].split('</body>')[0]\<close>. The index 1 raises
  \<open>IndexError\<close> when the HTML has no \<open><body>\<close>.
\<close>

definition index_error :: exc where
  "index_error = Exc IndexError (ascii ''list index out of range'')"

definition body_interior :: "pystr \<Rightarrow> exc + pystr" where
  "body_interior html_content =
     (case split_from (ascii ''<body>'') [] html_content of
        a # b # rest \<Rightarrow>
          (case split_from (ascii ''</body>'') [] b of
             [] \<Rightarrow> Inl index_error
           | x # xs \<Rightarrow> Inr x)
      | _ \<Rightarrow> Inl index_error)"

subsection \<open>\<open>generate_pdf\<close> and \<open>create_pdf\<close>\<close>

text \<open>
  \<open>final_markup\<close> is \<open>generate_pdf\<close> up to the string \<open>html_with_css\<close>; it returns the
  markup, or the exception raised on the way, with the lines printed. \<open>generate_pdf\<close>
  hands the markup to the browser. The rendering block of the source (lines 359 to 380)
  is read as one launch of the browser followed by the page calls.
\<close>

definition final_markup :: "env \<Rightarrow> pydict \<Rightarrow> (exc + pystr) \<times> pystr list" where
  "final_markup E data =
     (case read_text E (get_template_path E ''css'' ''main.css'') of
        Inl e \<Rightarrow> (Inl e, [])
      | Inr css0 \<Rightarrow>
          (case read_text E (get_template_path E ''html'' ''index.html'') of
             Inl e \<Rightarrow> (Inl e, [])
           | Inr html0 \<Rightarrow>
               (case data ''subject'' of
                  None \<Rightarrow> (Inl (key_error ''subject''), [])
                | Some subject \<Rightarrow>
                    (case substitute_fields data (snd (template_type_step data (css0, html0))) of
                       Inl e \<Rightarrow> (Inl e, [])
                     | Inr html1 \<Rightarrow>
                         (let subject_images = subject_images_of subject;
                              first_load = load_images E subject_images;
                              second_load = load_images E subject_images;
                              printed = snd first_load @ snd second_load;
                              css_content =
                                splice_images E (fst second_load)
                                  (fst (template_type_step data (css0, html0)))
                                @ layout_css @ subject_css subject
                          in (case body_interior (multiline_step subject html1) of
                                Inl e \<Rightarrow> (Inl e, printed)
                              | Inr body \<Rightarrow> (Inr (html_with_css css_content body), printed)))))))"

definition generate_pdf :: "env \<Rightarrow> pydict \<Rightarrow> (exc + nat list) \<times> pystr list" where
  "generate_pdf E data =
     (case final_markup E data of
        (Inl e, printed) \<Rightarrow> (Inl e, printed)
      | (Inr markup, printed) \<Rightarrow> (render_pdf E markup, printed))"

text \<open>
  \<open>create_pdf\<close>: a validation message is raised as \<open>ValueError\<close>; every exception of
  \<open>generate_pdf\<close> is raised again as \<open>RuntimeError\<close> with its text. The \<open>config\<close>
  argument only fills a dictionary that is never read, and is left out.
\<close>

definition msg_pdf_error :: "exc \<Rightarrow> pystr" where
  "msg_pdf_error e =
     [0x50, 0x44, 0x46, 0x751F, 0x6210, 0x4E2D, 0x306B, 0x30A8, 0x30E9, 0x30FC, 0x304C, 0x767A,
      0x751F, 0x3057, 0x307E, 0x3057, 0x305F, 0x3A, 0x20] @ str_exc e"

definition wrap_runtime_error ::
  "(exc + nat list) \<times> pystr list \<Rightarrow> (exc + nat list) \<times> pystr list" where
  "wrap_runtime_error r =
     (case r of
        (Inl e, printed) \<Rightarrow> (Inl (Exc RuntimeError (msg_pdf_error e)), printed)
      | (Inr pdf, printed) \<Rightarrow> (Inr pdf, printed))"

definition create_pdf :: "env \<Rightarrow> pydict \<Rightarrow> (exc + nat list) \<times> pystr list" where
  "create_pdf E data =
     (case validate_data data of
        Inl e \<Rightarrow> (Inl e, [])
      | Inr (Some error) \<Rightarrow>
          if error \<noteq> [] then (Inl (Exc ValueError error), [])
          else wrap_runtime_error (generate_pdf E data)
      | Inr None \<Rightarrow> wrap_runtime_error (generate_pdf E data))"

section \<open>Notions used in the statements\<close>

text \<open>
  \<open>suffixes_incomparable p t\<close>: no non-empty suffix of \<open>t\<close> is a prefix of \<open>p\<close> or has \<open>p\<close>
  as a prefix. It is the condition under which text written next to \<open>t\<close> cannot
  complete an occurrence of \<open>p\<close>.
\<close>

fun suffixes_incomparable :: "'a list \<Rightarrow> 'a list \<Rightarrow> bool" where
  "suffixes_incomparable p [] = True"
| "suffixes_incomparable p (x # xs) =
     (\<not> prefix p (x # xs) \<and> \<not> prefix (x # xs) p \<and> suffixes_incomparable p xs)"

text \<open>
  \<open>bad_score parse c\<close>: the score cell \<open>c\<close> fails the numeric coercion, or its number is
  \<open>NaN\<close> or outside the range from 0 to 100.
\<close>

definition bad_score :: "(pystr \<Rightarrow> number option) \<Rightarrow> cell \<Rightarrow> bool" where
  "bad_score parse c = (case coerce parse c of None \<Rightarrow> True | Some x \<Rightarrow> \<not> between 0 100 x)"











section \<open>Example inputs\<close>

subsection \<open>Records\<close>

text \<open>
  The test record of \<open>generator.py\<close> (lines 385 to 392), with the score left open, and
  the names it uses.
\<close>

definition yamada :: pystr where "yamada = [0x5C71, 0x7530]"
definition taro :: pystr where "taro = [0x592A, 0x90CE]"
definition first_term_exam :: pystr where
  "first_term_exam = [0x7B2C, 49, 0x56DE, 0x5B9A, 0x671F, 0x8003, 0x67FB]"
definition third_grade :: pystr where "third_grade = [0x5C0F, 51]"

definition sample_record :: "pyval \<Rightarrow> pydict" where
  "sample_record score =
     [''subject'' \<mapsto> VStr sugaku, ''test_name'' \<mapsto> VStr first_term_exam, ''score'' \<mapsto> score,
      ''sc_year'' \<mapsto> VStr third_grade, ''last_name'' \<mapsto> VStr yamada,
      ''first_name'' \<mapsto> VStr taro]"

text \<open>
  A record that breaks three rules at once: the last name is empty, the subject (art)
  is not one of the eight, and the score is 150.
\<close>

definition bijutsu :: pystr where "bijutsu = [0x7F8E, 0x8853]"

definition three_violations :: pydict where
  "three_violations =
     (sample_record (VInt 150))(''last_name'' \<mapsto> VStr [], ''subject'' \<mapsto> VStr bijutsu)"



subsection \<open>Tables\<close>

text \<open>
  The sample table of \<open>create_sample_data\<close>, and variants of it. \<open>integer_literals\<close>
  stands for the parser of \<open>pd.to_numeric\<close> on the strings the examples use: a decimal
  integer is a number, the empty string is \<open>NaN\<close>.
\<close>

definition suzuki :: pystr where "suzuki = [0x9234, 0x6728]"
definition sato :: pystr where "sato = [0x4F50, 0x85E4]"
definition hanako :: pystr where "hanako = [0x82B1, 0x5B50]"
definition ichiro :: pystr where "ichiro = [0x4E00, 0x90CE]"

definition sample_table :: dataframe where
  "sample_table =
     [(''subject'', [Str kokugo, Str sugaku, Str eigo]),
      (''test_name'', [Str first_term_exam, Str first_term_exam, Str first_term_exam]),
      (''score'', [Num 95, Num 88, Num 92]),
      (''sc_year'', [Str third_grade, Str third_grade, Str third_grade]),
      (''last_name'', [Str yamada, Str suzuki, Str sato]),
      (''first_name'', [Str taro, Str hanako, Str ichiro])]"

definition table_without_score :: dataframe where
  "table_without_score = filter (\<lambda>column. fst column \<noteq> ''score'') sample_table"

definition table_score_150 :: dataframe where
  "table_score_150 = set_column sample_table ''score'' [Num 95, Num 150, Num 92]"

definition table_score_abc :: dataframe where
  "table_score_abc = set_column sample_table ''score'' [Num 95, Str (ascii ''abc''), Num 92]"

definition table_score_strings :: dataframe where
  "table_score_strings =
     set_column sample_table ''score'' [Str (ascii ''95''), Str (ascii ''150''), Str (ascii ''92'')]"

definition table_empty_last_name :: dataframe where
  "table_empty_last_name = set_column sample_table ''last_name'' [Str yamada, Str [], Str sato]"

definition integer_literals :: "pystr \<Rightarrow> number option" where
  "integer_literals s =
     (if s = [] then Some NaN else map_option (\<lambda>n. Fin (of_int n)) (int_of_str s))"

subsection \<open>Byte buffers\<close>

text \<open>
  \<open>example_chardet\<close> stands for \<open>chardet.detect\<close> on three kinds of buffer: no label for
  the empty buffer, the label \<open>SHIFT_JIS\<close> for the Shift-JIS bytes of the first two
  subjects, and \<open>ascii\<close> or \<open>utf-8\<close> otherwise.
\<close>

definition shift_jis_sample :: "nat list" where
  "shift_jis_sample = [141, 145, 140, 234, 144, 148, 138, 119]"

definition example_chardet :: "nat list \<Rightarrow> pystr option" where
  "example_chardet raw =
     (if raw = [] then None
      else if raw = shift_jis_sample then Some (ascii ''SHIFT_JIS'')
      else if list_all (\<lambda>b. b < 128) raw then Some (ascii ''ascii'')
      else Some (ascii ''utf-8''))"

subsection \<open>Template assets\<close>

text \<open>
  A small installation: a stylesheet that neither pattern of \<open>re.sub\<close> matches (so
  \<open>re.sub\<close> returns it unchanged), an HTML template with the last-name, score and point
  placeholders, image files that hold the four bytes of the PNG magic number, and a
  browser that returns a PDF.
\<close>

definition example_css :: pystr where
  "example_css = ascii ''body { margin: 0; }''"

definition example_html :: pystr where
  \<open>example_html =
     ascii ''<html><body><span class="last_name">[last_name]{.last_name}</span>''
     @ ascii ''<span class="score">[score]{.score}</span>'' @ point_plain
     @ ascii ''</body></html>''\<close>

definition no_such_file :: "pystr \<Rightarrow> exc" where
  "no_such_file path = Exc OSError (ascii ''[Errno 2] No such file or directory: '' @ path)"

definition png_magic :: "nat list" where
  "png_magic = [0x89, 0x50, 0x4E, 0x47]"

definition pdf_magic :: "nat list" where
  "pdf_magic = [0x25, 0x50, 0x44, 0x46]"

definition example_env :: env where
  "example_env =
     \<lparr>package_dir = ascii ''/app/pdf_generator'',
      read_text =
        (\<lambda>path. if path = ascii ''/app/pdf_generator/templates/css/main.css'' then Inr example_css
                else if path = ascii ''/app/pdf_generator/templates/index.html''
                then Inr example_html
                else Inl (no_such_file path)),
      read_bytes = (\<lambda>path. Inr png_magic),
      b64encode = (\<lambda>raw. if raw = png_magic then ascii ''iVBORw=='' else []),
      re_sub = (\<lambda>pattern repl text. text),
      render_pdf = (\<lambda>markup. Inr pdf_magic)\<rparr>"

definition env_missing_images :: env where
  "env_missing_images = example_env\<lparr>read_bytes := (\<lambda>path. Inl (no_such_file path))\<rparr>"

definition env_missing_css :: env where
  "env_missing_css =
     example_env
       \<lparr>read_text :=
          (\<lambda>path. if path = ascii ''/app/pdf_generator/templates/index.html''
                  then Inr example_html
                  else Inl (no_such_file path))\<rparr>"

definition env_missing_html :: env where
  "env_missing_html =
     example_env
       \<lparr>read_text :=
          (\<lambda>path. if path = ascii ''/app/pdf_generator/templates/css/main.css''
                  then Inr example_css
                  else Inl (no_such_file path))\<rparr>"

definition env_browser_fails :: env where
  "env_browser_fails =
     example_env\<lparr>render_pdf := (\<lambda>markup. Inl (Exc RendererError (ascii ''Target closed'')))\<rparr>"

section \<open>Properties of the string operations\<close>

lemma contains_Nil [simp]: "contains [] s"
  by (cases s) simp_all

lemma contains_prefix: "prefix p s \<Longrightarrow> contains p s"
  by (cases s) simp_all


lemma contains_append_left: "contains p a \<Longrightarrow> contains p (a @ b)"
proof (induction a)
  case Nil
  then show ?case by simp
next
  case (Cons x xs)
  from Cons.prems have "prefix p (x # xs) \<or> contains p xs" by simp
  then show ?case
  proof
    assume "prefix p (x # xs)"
    then have "prefix p ((x # xs) @ b)" by (rule prefix_prefix)
    then show ?thesis by simp
  next
    assume "contains p xs"
    with Cons.IH show ?thesis by simp
  qed
qed

lemma contains_append_cases:
  "contains p (a @ b) \<Longrightarrow> contains p b \<or> (\<exists>i<length a. prefix p (drop i a @ b))"
proof (induction a)
  case Nil
  then show ?case by simp
next
  case (Cons x xs)
  from Cons.prems have "prefix p (x # xs @ b) \<or> contains p (xs @ b)" by simp
  then show ?case
  proof
    assume "prefix p (x # xs @ b)"
    then have "prefix p (drop 0 (x # xs) @ b)" by simp
    then show ?thesis by blast
  next
    assume "contains p (xs @ b)"
    with Cons.IH have "contains p b \<or> (\<exists>i<length xs. prefix p (drop i xs @ b))" by blast
    then show ?thesis
    proof
      assume "contains p b" then show ?thesis by blast
    next
      assume "\<exists>i<length xs. prefix p (drop i xs @ b)"
      then obtain i where "i < length xs" "prefix p (drop i xs @ b)" by blast
      then have "Suc i < length (x # xs)" "prefix p (drop (Suc i) (x # xs) @ b)" by simp_all
      then show ?thesis by blast
    qed
  qed
qed

lemma suffixes_incomparable_drop:
  "suffixes_incomparable p t \<Longrightarrow> i < length t \<Longrightarrow>
     \<not> prefix p (drop i t) \<and> \<not> prefix (drop i t) p"
proof (induction t arbitrary: i)
  case Nil
  then show ?case by simp
next
  case (Cons x xs)
  show ?case
  proof (cases i)
    case 0
    with Cons.prems show ?thesis by simp
  next
    case (Suc k)
    with Cons show ?thesis by simp
  qed
qed

lemma prefix_append_cases: "prefix q (a @ b) \<Longrightarrow> prefix q a \<or> prefix a q"
  by (auto simp: prefix_append)

lemma py_replace_prefix:
  "old \<noteq> [] \<Longrightarrow> prefix q (py_replace old new s) \<Longrightarrow>
     prefix q s \<or> (\<exists>j<length q. prefix (drop j q) new \<or> prefix new (drop j q))"
proof (induction old new s arbitrary: q rule: py_replace.induct)
  case (1 old new)
  then show ?case by simp
next
  case (2 old new c cs)
  show ?case
  proof (cases "q = []")
    case True
    then show ?thesis by simp
  next
    case qne: False
    show ?thesis
    proof (cases "prefix old (c # cs)")
      case True
      with 2 have "prefix q (new @ py_replace old new (drop (length old) (c # cs)))" by simp
      then have "prefix q new \<or> prefix new q" by (rule prefix_append_cases)
      then have "prefix (drop 0 q) new \<or> prefix new (drop 0 q)" by simp
      moreover have "0 < length q" using qne by simp
      ultimately show ?thesis by blast
    next
      case False
      with 2 have pq: "prefix q (c # py_replace old new cs)" by simp
      with qne obtain q' where q: "q = c # q'" and pq': "prefix q' (py_replace old new cs)"
        by (cases q) auto
      from "2.IH"(3)[OF "2.prems"(1) False "2.prems"(1) pq'] "2.prems"(1)
      have "prefix q' cs \<or> (\<exists>j<length q'. prefix (drop j q') new \<or> prefix new (drop j q'))"
        by blast
      then show ?thesis
      proof
        assume "prefix q' cs" with q show ?thesis by simp
      next
        assume "\<exists>j<length q'. prefix (drop j q') new \<or> prefix new (drop j q')"
        then obtain j where "j < length q'" "prefix (drop j q') new \<or> prefix new (drop j q')" by blast
        with q have "Suc j < length q" "prefix (drop (Suc j) q) new \<or> prefix new (drop (Suc j) q)" by simp_all
        then show ?thesis by blast
      qed
    qed
  qed
qed


lemma py_replace_removes:
  assumes ne: "old \<noteq> []"
    and c1: "suffixes_incomparable old new"
    and c2: "suffixes_incomparable new (tl old)"
  shows "\<not> contains old (py_replace old new s)"
  using ne c1 c2
proof (induction old new s rule: py_replace.induct)
  case (1 old new)
  then show ?case by simp
next
  case (2 old new c cs)
  note ne = \<open>old \<noteq> []\<close>
  show ?case
  proof (cases "prefix old (c # cs)")
    case True
    let ?R = "py_replace old new (drop (length old) (c # cs))"
    from "2.IH"(2)[OF ne True] "2.prems" ne have ih: "\<not> contains old ?R" by blast
    have "\<not> contains old (new @ ?R)"
    proof
      assume "contains old (new @ ?R)"
      with ih obtain i where i: "i < length new" and p: "prefix old (drop i new @ ?R)"
        using contains_append_cases by blast
      from p have "prefix old (drop i new) \<or> prefix (drop i new) old"
        by (rule prefix_append_cases)
      with suffixes_incomparable_drop[OF "2.prems"(2) i] show False by blast
    qed
    with True ne show ?thesis by simp
  next
    case False
    let ?R = "py_replace old new cs"
    from "2.IH"(3)[OF ne False] "2.prems" ne have ih: "\<not> contains old ?R" by blast
    have "\<not> prefix old (c # ?R)"
    proof
      assume a: "prefix old (c # ?R)"
      with ne obtain old' where old: "old = c # old'" and p: "prefix old' ?R"
        by (cases old) auto
      from py_replace_prefix[OF ne p]
      have "prefix old' cs \<or> (\<exists>j<length old'. prefix (drop j old') new \<or> prefix new (drop j old'))" .
      then show False
      proof
        assume "prefix old' cs"
        with old False show False by simp
      next
        assume "\<exists>j<length old'. prefix (drop j old') new \<or> prefix new (drop j old')"
        then obtain j where j: "j < length (tl old)"
          and pj: "prefix (drop j (tl old)) new \<or> prefix new (drop j (tl old))"
          using old by auto
        with suffixes_incomparable_drop[OF "2.prems"(3) j] show False by blast
      qed
    qed
    with ih False ne show ?thesis by simp
  qed
qed

lemma py_replace_puts:
  "old \<noteq> [] \<Longrightarrow> contains old s \<Longrightarrow> contains new (py_replace old new s)"
proof (induction old new s rule: py_replace.induct)
  case (1 old new)
  then show ?case by simp
next
  case (2 old new c cs)
  show ?case
  proof (cases "prefix old (c # cs)")
    case True
    have "contains new (new @ py_replace old new (drop (length old) (c # cs)))"
      by (rule contains_append_left) (simp add: contains_prefix)
    with 2 True show ?thesis by simp
  next
    case False
    with "2.prems" have "contains old cs" by simp
    with 2 False have "contains new (py_replace old new cs)" by simp
    with 2 False show ?thesis by simp
  qed
qed



















section \<open>Properties of the record validators\<close>

lemma check_required_None:
  "check_required fs data = None \<Longrightarrow> field \<in> set fs \<Longrightarrow>
     \<exists>v. data field = Some v \<and> truthy v"
  by (induction fs) (auto split: option.splits if_splits)

lemma truthy_py_int: "truthy v \<Longrightarrow> (\<exists>n. py_int v = Inr n) \<or> py_int v = Inl invalid_literal"
  by (cases v) (auto split: option.splits)

lemma validate_data_never_raises: "\<exists>r. validate_data data = Inr r"
proof (cases "check_required required_fields data")
  case (Some m)
  then show ?thesis by (simp add: validate_data_def)
next
  case None
  from check_required_None[OF None, of "''subject''"]
  obtain subj where subj: "data ''subject'' = Some subj" by (auto simp: required_fields_def)
  from check_required_None[OF None, of "''score''"]
  obtain sc where sc: "data ''score'' = Some sc" "truthy sc" by (auto simp: required_fields_def)
  from truthy_py_int[OF sc(2)] None subj sc(1) show ?thesis
    by (auto simp: validate_data_def invalid_literal_def)
qed

lemma validate_data_accepts_iff:
  "validate_data data = Inr None \<longleftrightarrow>
     check_required required_fields data = None
     \<and> (\<exists>subj. data ''subject'' = Some subj \<and> in_valid_subjects subj)
     \<and> (\<exists>sc n. data ''score'' = Some sc \<and> py_int sc = Inr n \<and> 0 \<le> n \<and> n \<le> 100)"
  by (auto simp: validate_data_def split: option.splits sum.splits if_splits)

lemma score_messages_differ: "msg_score_range \<noteq> msg_score_integer"
  by (simp add: msg_score_range_def msg_score_integer_def)

lemmas record_eval =
  sample_record_def required_fields_def VALID_SUBJECTS_def SUBJECT_IMAGES_def
  kokugo_def sugaku_def shakai_def rika_def eigo_def gijutsu_katei_def ongaku_def
  hoken_taiiku_def yamada_def taro_def first_term_exam_def third_grade_def

text \<open>
  C1. The record validator should accept a record whose required fields are present
  exactly when the score is integral and lies between 0 and 100, so the scores 0 and 100
  should be accepted. Evaluated on the test record with the integer score 0,
  \<open>validate_data\<close> rejects it with the message that the score field is empty: the
  emptiness test \<open>not data[field]\<close> is also true of the integer 0. \<open>validate_input\<close>
  accepts the same record, and \<open>validate_data\<close> accepts the score 100.
\<close>
theorem validate_data_rejects_integer_zero:
  "validate_data (sample_record (VInt 0)) = Inr (Some (msg_empty ''score''))
   \<and> validate_input (sample_record (VInt 0)) = Inr []
   \<and> validate_data (sample_record (VInt 100)) = Inr None"
  by (simp add: validate_data_def validate_input_def record_eval)

lemma validate_data_examples:
  "validate_data (sample_record (VInt 101)) = Inr (Some msg_score_range)"
  "validate_data (sample_record (VInt (- 1))) = Inr (Some msg_score_range)"
  "validate_data (sample_record (VStr (ascii ''abc''))) = Inr (Some msg_score_integer)"
  "validate_data (sample_record (VStr (ascii ''0''))) = Inr None"
  by (simp_all add: validate_data_def record_eval ascii_def int_of_str_def strip_def
      is_space_def digit_value_def decimal_zeros_def max_str_digits_def invalid_literal_def)

text \<open>
  C2, at a record that breaks three rules (empty last name, unknown subject, score
  150): \<open>validate_data\<close> returns one message, for the last name; \<open>validate_input\<close>
  returns two, for the last name and the score, and none for the subject.
\<close>
theorem three_violations_reported:
  "three_violations ''last_name'' = Some (VStr [])
   \<and> three_violations ''subject'' = Some (VStr bijutsu) \<and> \<not> in_valid_subjects (VStr bijutsu)
   \<and> three_violations ''score'' = Some (VInt 150)
   \<and> validate_data three_violations = Inr (Some (msg_empty ''last_name''))
   \<and> validate_input three_violations = Inr [msg_last_name, msg_score_input]"
  by (simp add: validate_data_def validate_input_def three_violations_def bijutsu_def record_eval)

text \<open>
  C2, as the code has it. \<open>validate_input\<close> collects: on a record with a last name, a
  first name and an integer score it returns one message for each of its three rules
  that is broken (last name not empty, first name not empty, score between 0 and 100),
  in that order; it has no rule for the subject. \<open>validate_data\<close> returns at the first
  failing check: a failing required-field check is the whole result, and when those
  pass, an unknown subject is the whole result whatever the score is.
\<close>
theorem validate_input_collects:
  "(vals ''last_name'' = Some lname \<and> vals ''first_name'' = Some fname
      \<and> vals ''score'' = Some (VInt n) \<longrightarrow>
      validate_input vals =
        Inr ((if truthy lname then [] else [msg_last_name])
             @ (if truthy fname then [] else [msg_first_name])
             @ (if 0 \<le> n \<and> n \<le> 100 then [] else [msg_score_input])))
   \<and> (check_required required_fields data = Some m \<longrightarrow> validate_data data = Inr (Some m))
   \<and> (check_required required_fields data = None \<and> data ''subject'' = Some subj
        \<and> \<not> in_valid_subjects subj \<longrightarrow>
        validate_data data = Inr (Some (msg_invalid_subject subj)))"
  by (simp add: validate_input_def validate_data_def)

text \<open>C2 on the record with three violations and on one with an unknown subject only.\<close>
theorem validate_input_collects_witness:
  "validate_input three_violations = Inr [msg_last_name, msg_score_input]
   \<and> validate_data three_violations = Inr (Some (msg_empty ''last_name''))
   \<and> validate_data ((sample_record (VInt 150))(''subject'' \<mapsto> VStr bijutsu))
       = Inr (Some (msg_invalid_subject (VStr bijutsu)))"
proof -
  have a: "three_violations ''last_name'' = Some (VStr []) \<and> three_violations ''first_name'' = Some (VStr taro)
      \<and> three_violations ''score'' = Some (VInt 150)"
    by (simp add: three_violations_def sample_record_def)
  have b: "check_required required_fields three_violations = Some (msg_empty ''last_name'')"
    by (simp add: three_violations_def bijutsu_def record_eval)
  have c: "check_required required_fields ((sample_record (VInt 150))(''subject'' \<mapsto> VStr bijutsu)) = None
     \<and> ((sample_record (VInt 150))(''subject'' \<mapsto> VStr bijutsu)) ''subject'' = Some (VStr bijutsu)
     \<and> \<not> in_valid_subjects (VStr bijutsu)"
    by (simp add: bijutsu_def record_eval)
  from a b validate_input_collects[of three_violations "VStr []" "VStr taro" 150 three_violations "msg_empty ''last_name''" "VStr bijutsu"]
  have 1: "validate_input three_violations = Inr [msg_last_name, msg_score_input]
     \<and> validate_data three_violations = Inr (Some (msg_empty ''last_name''))"
    by (simp add: taro_def)
  from c validate_input_collects[of three_violations "VStr []" "VStr taro" 150 "(sample_record (VInt 150))(''subject'' \<mapsto> VStr bijutsu)" "[]" "VStr bijutsu"]
  have 2: "validate_data ((sample_record (VInt 150))(''subject'' \<mapsto> VStr bijutsu))
       = Inr (Some (msg_invalid_subject (VStr bijutsu)))" by simp
  from 1 2 show ?thesis by simp
qed

section \<open>Properties of the table validator\<close>

lemma to_numeric_from_ok:
  "list_all (\<lambda>c. coerce parse c \<noteq> None) cs \<Longrightarrow>
     to_numeric_from parse i cs = Inr (map (\<lambda>c. the (coerce parse c)) cs)"
  by (induction cs arbitrary: i) auto

lemma to_numeric_from_fails:
  "\<not> list_all (\<lambda>c. coerce parse c \<noteq> None) cs \<Longrightarrow>
     \<exists>c k. to_numeric_from parse i cs = Inl (unable_to_parse c k)"
proof (induction cs arbitrary: i)
  case Nil
  then show ?case by simp
next
  case (Cons c cs)
  show ?case
  proof (cases "coerce parse c")
    case None
    then show ?thesis by auto
  next
    case (Some x)
    with Cons.prems have "\<not> list_all (\<lambda>c. coerce parse c \<noteq> None) cs" by simp
    from Cons.IH[OF this, of "Suc i"] obtain c' k
      where "to_numeric_from parse (Suc i) cs = Inl (unable_to_parse c' k)" by blast
    with Some have "to_numeric_from parse i (c # cs) = Inl (unable_to_parse c' k)" by simp
    then show ?thesis by blast
  qed
qed

lemma map_of_set_column: "map_of (set_column df col cs) = (map_of df)(col \<mapsto> cs)"
  by (simp add: set_column_def update_conv')

lemma columns_set_column:
  "col \<in> set (columns df) \<Longrightarrow> columns (set_column df col cs) = columns df"
  by (simp add: set_column_def columns_def update_keys)

lemma map_of_in_columns: "map_of df col = Some cs \<Longrightarrow> col \<in> set (columns df)"
  by (auto simp: columns_def dest: map_of_SomeD intro: rev_image_eqI)

text \<open>
  C3. When a required column is missing, \<open>validate_dataframe\<close> of
  \<open>utils/file_processor.py\<close> returns the message that carries exactly the set of missing
  column names and leaves the table as it is. No other check runs, so the result is the
  same for every table with the same column labels, whatever its cells hold.
\<close>
theorem missing_columns_short_circuit:
  "(set required_columns - set (columns df) \<noteq> {} \<longrightarrow>
      validate_dataframe parse df required_columns
        = (df, Some (MissingColumns (set required_columns - set (columns df)))))
   \<and> (set required_columns - set (columns df) \<noteq> {} \<and> columns df' = columns df \<longrightarrow>
      snd (validate_dataframe parse df' required_columns)
        = snd (validate_dataframe parse df required_columns))"
  by (simp add: validate_dataframe_def table_checks_def Let_def)

lemmas table_eval =
  sample_table_def columns_def REQUIRED_COLUMNS_def set_column_def get_column_def

text \<open>C3 on the sample table without its score column, and on the same columns with every cell missing.\<close>
theorem missing_columns_short_circuit_witness:
  "validate_dataframe integer_literals table_without_score REQUIRED_COLUMNS
     = (table_without_score, Some (MissingColumns {''score''}))
   \<and> snd (validate_dataframe integer_literals
            (map (\<lambda>column. (fst column, [Null, Null, Null])) table_without_score)
            REQUIRED_COLUMNS)
     = Some (MissingColumns {''score''})"
proof -
  have m: "set REQUIRED_COLUMNS - set (columns table_without_score) = {''score''}"
    by (auto simp: table_without_score_def table_eval)
  have c: "columns (map (\<lambda>column. (fst column, [Null, Null, Null])) table_without_score)
      = columns table_without_score"
    by (simp add: columns_def comp_def)
  from m c
    missing_columns_short_circuit[of REQUIRED_COLUMNS table_without_score integer_literals
      "map (\<lambda>column. (fst column, [Null, Null, Null])) table_without_score"]
  show ?thesis by simp
qed

lemma between_the_coerce:
  "list_all (\<lambda>c. coerce parse c \<noteq> None) cs \<Longrightarrow>
     list_all (between 0 100) (map (\<lambda>c. the (coerce parse c)) cs)
       = (\<not> list_ex (bad_score parse) cs)"
  by (induction cs) (auto simp: bad_score_def)

text \<open>
  C4. For a table that has the required columns, when some cell of the score column
  fails the numeric coercion or holds a number that is missing or outside the range from
  0 to 100, \<open>validate_dataframe\<close> of \<open>utils/file_processor.py\<close> rejects the table with
  one message: the range message when every cell can be coerced, and otherwise the
  message built from the exception of the coercion.
\<close>
theorem bad_score_rejects_table:
  "set required_columns \<subseteq> set (columns df) \<and> map_of df ''score'' = Some score
     \<and> list_ex (bad_score parse) score \<longrightarrow>
   (list_all (\<lambda>c. coerce parse c \<noteq> None) score \<longrightarrow>
      snd (validate_dataframe parse df required_columns) = Some ScoreOutOfRange)
   \<and> (\<not> list_all (\<lambda>c. coerce parse c \<noteq> None) score \<longrightarrow>
      (\<exists>c k. snd (validate_dataframe parse df required_columns)
               = Some (ValidationException (unable_to_parse c k))))"
proof (intro impI, elim conjE)
  assume req: "set required_columns \<subseteq> set (columns df)"
    and sc: "map_of df ''score'' = Some score"
    and bad: "list_ex (bad_score parse) score"
  from req have none_missing: "set required_columns - set (columns df) = {}" by blast
  have checks_ok: "snd (validate_dataframe parse df required_columns) = Some ScoreOutOfRange"
    if all: "list_all (\<lambda>c. coerce parse c \<noteq> None) score"
  proof -
    from all have "to_numeric parse score = Inr (map (\<lambda>c. the (coerce parse c)) score)"
      by (simp add: to_numeric_def to_numeric_from_ok)
    moreover from all bad
    have "\<not> list_all (between 0 100) (map (\<lambda>c. the (coerce parse c)) score)"
      by (simp add: between_the_coerce)
    ultimately show ?thesis using sc none_missing
      by (simp add: validate_dataframe_def table_checks_def get_column_def Let_def)
  qed
  have checks_fail:
    "\<exists>c k. snd (validate_dataframe parse df required_columns)
       = Some (ValidationException (unable_to_parse c k))"
    if some: "\<not> list_all (\<lambda>c. coerce parse c \<noteq> None) score"
  proof -
    from to_numeric_from_fails[OF some, of 0] obtain c k
      where "to_numeric parse score = Inl (unable_to_parse c k)"
      by (auto simp: to_numeric_def)
    with sc none_missing
    have "snd (validate_dataframe parse df required_columns)
        = Some (ValidationException (unable_to_parse c k))"
      by (simp add: validate_dataframe_def table_checks_def get_column_def Let_def)
    then show ?thesis by blast
  qed
  from checks_ok checks_fail
  show "(list_all (\<lambda>c. coerce parse c \<noteq> None) score \<longrightarrow>
      snd (validate_dataframe parse df required_columns) = Some ScoreOutOfRange)
   \<and> (\<not> list_all (\<lambda>c. coerce parse c \<noteq> None) score \<longrightarrow>
      (\<exists>c k. snd (validate_dataframe parse df required_columns)
               = Some (ValidationException (unable_to_parse c k))))"
    by blast
qed

lemmas parse_eval =
  integer_literals_def int_of_str_def strip_def is_space_def digit_value_def decimal_zeros_def
  max_str_digits_def ascii_def

text \<open>C4 on the sample table with a score of 150, and with the score \<open>abc\<close>.\<close>
theorem bad_score_rejects_table_witness:
  "snd (validate_dataframe integer_literals table_score_150 REQUIRED_COLUMNS) = Some ScoreOutOfRange
   \<and> (\<exists>c k. snd (validate_dataframe integer_literals table_score_abc REQUIRED_COLUMNS)
               = Some (ValidationException (unable_to_parse c k)))"
proof -
  have a: "set REQUIRED_COLUMNS \<subseteq> set (columns table_score_150)
      \<and> map_of table_score_150 ''score'' = Some [Num 95, Num 150, Num 92]
      \<and> list_ex (bad_score integer_literals) [Num 95, Num 150, Num 92]
      \<and> list_all (\<lambda>c. coerce integer_literals c \<noteq> None) [Num 95, Num 150, Num 92]"
    by (simp add: table_score_150_def table_eval bad_score_def)
  have b: "set REQUIRED_COLUMNS \<subseteq> set (columns table_score_abc)
      \<and> map_of table_score_abc ''score'' = Some [Num 95, Str (ascii ''abc''), Num 92]
      \<and> list_ex (bad_score integer_literals) [Num 95, Str (ascii ''abc''), Num 92]
      \<and> \<not> list_all (\<lambda>c. coerce integer_literals c \<noteq> None) [Num 95, Str (ascii ''abc''), Num 92]"
    by (simp add: table_score_abc_def table_eval bad_score_def parse_eval)
  from a bad_score_rejects_table[of REQUIRED_COLUMNS table_score_150 "[Num 95, Num 150, Num 92]" integer_literals]
  have 1: "snd (validate_dataframe integer_literals table_score_150 REQUIRED_COLUMNS) = Some ScoreOutOfRange"
    by simp
  from b bad_score_rejects_table[of REQUIRED_COLUMNS table_score_abc "[Num 95, Str (ascii ''abc''), Num 92]" integer_literals]
  have 2: "\<exists>c k. snd (validate_dataframe integer_literals table_score_abc REQUIRED_COLUMNS)
               = Some (ValidationException (unable_to_parse c k))"
    by simp
  from 1 2 show ?thesis by simp
qed

lemmas subjects_eval =
  valid_subjects_def VALID_SUBJECTS_def SUBJECT_IMAGES_def kokugo_def sugaku_def shakai_def rika_def eigo_def
  gijutsu_katei_def ongaku_def hoken_taiiku_def

lemma to_numeric_sample: "to_numeric parse [Num 95, Num 88, Num 92] = Inr [Fin 95, Fin 88, Fin 92]"
  by (simp add: to_numeric_def)

text \<open>
  C5. The null check should fail on every empty or missing cell of a required column,
  also on a cell that holds the empty string. Evaluated on the sample table whose second
  last name is the empty string, \<open>validate_dataframe\<close> of \<open>utils/file_processor.py\<close>
  returns no message: \<open>isna\<close> is true of \<open>NaN\<close> and \<open>None\<close> only.
\<close>
theorem empty_string_cell_passes:
  "map_of table_empty_last_name ''last_name'' = Some [Str yamada, Str [], Str sato]
   \<and> snd (validate_dataframe integer_literals table_empty_last_name REQUIRED_COLUMNS) = None"
  by (simp add: validate_dataframe_def table_checks_def Let_def
      table_empty_last_name_def table_eval to_numeric_sample check_subjects_def subjects_eval)

lemma first_null_column_finds:
  "first_null_column df cols = Inr (Some col) \<Longrightarrow>
     col \<in> set cols \<and> (\<exists>cs. map_of df col = Some cs \<and> list_ex isna cs)"
  by (induction cols) (auto simp: get_column_def split: option.splits if_splits)

lemma first_null_column_none:
  "first_null_column df cols = Inr None \<Longrightarrow> col \<in> set cols \<Longrightarrow>
     \<exists>cs. map_of df col = Some cs \<and> \<not> list_ex isna cs"
  by (induction cols) (auto simp: get_column_def split: option.splits if_splits)

lemma null_cell_rejected:
  "snd (validate_dataframe integer_literals
         (set_column sample_table ''last_name'' [Str yamada, Null, Str sato]) REQUIRED_COLUMNS)
     = Some (NullValues ''last_name'')"
  by (simp add: validate_dataframe_def table_checks_def Let_def table_eval to_numeric_sample)

lemma table_checks_frame:
  "fst (table_checks subjects parse rq nc df) = df
   \<or> (\<exists>score nums. map_of df ''score'' = Some score \<and> to_numeric parse score = Inr nums
        \<and> fst (table_checks subjects parse rq nc df) = set_column df ''score'' (map cell_of nums))"
  by (auto simp: table_checks_def Let_def get_column_def split: option.splits sum.splits)

lemma table_checks_writes:
  "set rq \<subseteq> set (columns df) \<Longrightarrow> map_of df ''score'' = Some score \<Longrightarrow>
   to_numeric parse score = Inr nums \<Longrightarrow>
     fst (table_checks subjects parse rq nc df) = set_column df ''score'' (map cell_of nums)"
proof -
  assume a: "set rq \<subseteq> set (columns df)" and b: "map_of df ''score'' = Some score"
    and c: "to_numeric parse score = Inr nums"
  from a have "set rq - set (columns df) = {}" by blast
  with b c show ?thesis
    by (simp add: table_checks_def Let_def get_column_def split: option.splits sum.splits)
qed

lemma table_checks_other_columns:
  "col \<noteq> ''score'' \<Longrightarrow> map_of (fst (table_checks subjects parse rq nc df)) col = map_of df col"
  using table_checks_frame[of subjects parse rq nc df] by (auto simp: map_of_set_column)

lemma table_checks_columns: "columns (fst (table_checks subjects parse rq nc df)) = columns df"
  using table_checks_frame[of subjects parse rq nc df]
  by (auto simp: columns_set_column map_of_in_columns)

text \<open>
  C10. \<open>validate_dataframe\<close> of \<open>utils/file_processor.py\<close> writes into the caller's
  table: when the required columns are present and the coercion of the score column
  succeeds, the returned table is the given one with the score column replaced by the
  coerced numbers, whatever the later checks decide. Every other column and the order
  of the columns are unchanged in every case.
\<close>
theorem validate_dataframe_writes_score_column:
  "(set required_columns \<subseteq> set (columns df) \<and> map_of df ''score'' = Some score
      \<and> to_numeric parse score = Inr nums \<longrightarrow>
      fst (validate_dataframe parse df required_columns)
        = set_column df ''score'' (map cell_of nums))
   \<and> (col \<noteq> ''score'' \<longrightarrow>
        map_of (fst (validate_dataframe parse df required_columns)) col = map_of df col)
   \<and> columns (fst (validate_dataframe parse df required_columns)) = columns df"
  by (simp add: validate_dataframe_def table_checks_writes table_checks_other_columns
      table_checks_columns)

text \<open>
  C10 on the sample table with its scores written as strings: validation fails on the
  score 150, and the table that comes back holds numbers in place of the strings.
\<close>
theorem validate_dataframe_writes_score_column_witness:
  "validate_dataframe integer_literals table_score_strings REQUIRED_COLUMNS
     = (table_score_150, Some ScoreOutOfRange)
   \<and> table_score_150 \<noteq> table_score_strings
   \<and> map_of table_score_150 ''last_name'' = map_of table_score_strings ''last_name''
   \<and> columns table_score_150 = columns table_score_strings"
proof -
  have a: "set REQUIRED_COLUMNS \<subseteq> set (columns table_score_strings)
      \<and> map_of table_score_strings ''score''
          = Some [Str (ascii ''95''), Str (ascii ''150''), Str (ascii ''92'')]
      \<and> to_numeric integer_literals [Str (ascii ''95''), Str (ascii ''150''), Str (ascii ''92'')]
          = Inr [Fin 95, Fin 150, Fin 92]"
    by (simp add: table_score_strings_def table_eval to_numeric_def parse_eval)
  have b: "set_column table_score_strings ''score'' (map cell_of [Fin 95, Fin 150, Fin 92])
      = table_score_150"
    by (simp add: table_score_strings_def table_score_150_def table_eval)
  have c: "snd (validate_dataframe integer_literals table_score_strings REQUIRED_COLUMNS)
        = Some ScoreOutOfRange"
    using a
    by (simp add: validate_dataframe_def table_checks_def Let_def get_column_def)
  have d: "table_score_150 \<noteq> table_score_strings"
    by (simp add: table_score_strings_def table_score_150_def table_eval)
  note t = validate_dataframe_writes_score_column[of REQUIRED_COLUMNS table_score_strings
      "[Str (ascii ''95''), Str (ascii ''150''), Str (ascii ''92'')]" integer_literals
      "[Fin 95, Fin 150, Fin 92]" "''last_name''"]
  from a t have e1: "fst (validate_dataframe integer_literals table_score_strings REQUIRED_COLUMNS)
      = set_column table_score_strings ''score'' (map cell_of [Fin 95, Fin 150, Fin 92])"
    by blast
  from t have e3: "map_of (fst (validate_dataframe integer_literals table_score_strings
      REQUIRED_COLUMNS)) ''last_name'' = map_of table_score_strings ''last_name''"
    by simp
  from t have e4: "columns (fst (validate_dataframe integer_literals table_score_strings
      REQUIRED_COLUMNS)) = columns table_score_strings"
    by blast
  from e1 e3 e4 b
  have e: "fst (validate_dataframe integer_literals table_score_strings REQUIRED_COLUMNS)
        = table_score_150
      \<and> map_of table_score_150 ''last_name'' = map_of table_score_strings ''last_name''
      \<and> columns table_score_150 = columns table_score_strings"
    by simp
  from c d e show ?thesis by (simp add: prod_eq_iff)
qed

text \<open>
  The validator of \<open>utils/__init__.py\<close>: when its import raises, the call raises the
  same exception and the table is as it was; when the import gives the subjects, the
  call is the shared checks over \<open>REQUIRED_COLUMNS\<close>.
\<close>

lemma utils_validate_dataframe_import_raises:
  "utils_validate_dataframe (Inl e) parse df = (df, Inl e)"
  by (simp add: utils_validate_dataframe_def)

lemma utils_validate_dataframe_imported:
  "utils_validate_dataframe (Inr subjects) parse df
     = (fst (table_checks subjects parse REQUIRED_COLUMNS REQUIRED_COLUMNS df),
        Inr (snd (table_checks subjects parse REQUIRED_COLUMNS REQUIRED_COLUMNS df)))"
  by (simp add: utils_validate_dataframe_def split: prod.splits)

section \<open>Properties of the encoding detector\<close>

lemma utf8_allowed: "ascii ''utf-8'' \<in> set ALLOWED_ENCODINGS"
  by (simp add: ALLOWED_ENCODINGS_def)

text \<open>
  C6, as the code has it. When the guesser gives a label, \<open>detect_encoding\<close> of
  \<open>utils/__init__.py\<close> returns the lowered label if it is in the allow-list and \<open>utf-8\<close>
  otherwise, so its result is one of the three allowed strings; \<open>detect_encoding\<close> of
  \<open>utils/file_processor.py\<close> returns \<open>utf-8\<close> in the second case and, in the first, the
  label as the guesser wrote it. When the guesser gives no label, the first raises
  \<open>FileProcessError\<close> and the second \<open>AttributeError\<close>.
\<close>
theorem detect_encoding_results:
  "(chardet (content file_obj) = Some label \<longrightarrow>
      fst (utils_detect_encoding chardet file_obj)
        = Inr (if lower label \<in> set ALLOWED_ENCODINGS then lower label else ascii ''utf-8'')
      \<and> (\<exists>enc. fst (utils_detect_encoding chardet file_obj) = Inr enc
                 \<and> enc \<in> set ALLOWED_ENCODINGS)
      \<and> fst (detect_encoding chardet file_obj)
        = Inr (if lower label \<in> set ALLOWED_ENCODINGS then label else ascii ''utf-8''))
   \<and> (chardet (content file_obj) = None \<longrightarrow>
        fst (utils_detect_encoding chardet file_obj)
          = Inl (Exc FileProcessError (msg_detect_failed none_has_no_lower))
        \<and> fst (detect_encoding chardet file_obj) = Inl none_has_no_lower)"
  by (simp add: utils_detect_encoding_def detect_encoding_def Let_def utf8_allowed)

lemmas encoding_eval =
  example_chardet_def shift_jis_sample_def ALLOWED_ENCODINGS_def lower_def ascii_def

text \<open>C6 on a Shift-JIS buffer, an ASCII buffer and the empty buffer.\<close>
theorem detect_encoding_results_witness:
  "fst (utils_detect_encoding example_chardet \<lparr>content = shift_jis_sample, pos = 0\<rparr>)
     = Inr (ascii ''shift_jis'')
   \<and> fst (detect_encoding example_chardet \<lparr>content = shift_jis_sample, pos = 0\<rparr>)
     = Inr (ascii ''SHIFT_JIS'')
   \<and> fst (utils_detect_encoding example_chardet \<lparr>content = ascii ''a,b'', pos = 0\<rparr>)
     = Inr (ascii ''utf-8'')
   \<and> fst (detect_encoding example_chardet \<lparr>content = [], pos = 0\<rparr>) = Inl none_has_no_lower"
proof -
  have a: "example_chardet (content \<lparr>content = shift_jis_sample, pos = 0\<rparr>) = Some (ascii ''SHIFT_JIS'')
     \<and> lower (ascii ''SHIFT_JIS'') = ascii ''shift_jis''
     \<and> ascii ''shift_jis'' \<in> set ALLOWED_ENCODINGS"
    by (simp add: encoding_eval)
  have b: "example_chardet (content \<lparr>content = ascii ''a,b'', pos = 0\<rparr>) = Some (ascii ''ascii'')
     \<and> lower (ascii ''ascii'') \<notin> set ALLOWED_ENCODINGS"
    by (simp add: encoding_eval)
  have c: "example_chardet (content \<lparr>content = [], pos = 0\<rparr>) = None"
    by (simp add: encoding_eval)
  from a detect_encoding_results[of example_chardet "\<lparr>content = shift_jis_sample, pos = 0\<rparr>" "ascii ''SHIFT_JIS''"]
  have 1: "fst (utils_detect_encoding example_chardet \<lparr>content = shift_jis_sample, pos = 0\<rparr>)
     = Inr (ascii ''shift_jis'')
   \<and> fst (detect_encoding example_chardet \<lparr>content = shift_jis_sample, pos = 0\<rparr>)
     = Inr (ascii ''SHIFT_JIS'')" by simp
  from b detect_encoding_results[of example_chardet "\<lparr>content = ascii ''a,b'', pos = 0\<rparr>" "ascii ''ascii''"]
  have 2: "fst (utils_detect_encoding example_chardet \<lparr>content = ascii ''a,b'', pos = 0\<rparr>)
     = Inr (ascii ''utf-8'')" by simp
  from c detect_encoding_results[of example_chardet "\<lparr>content = [], pos = 0\<rparr>"]
  have 3: "fst (detect_encoding example_chardet \<lparr>content = [], pos = 0\<rparr>) = Inl none_has_no_lower"
    by simp
  from 1 2 3 show ?thesis by simp
qed

text \<open>
  C6, at two buffers: on the Shift-JIS sample \<open>detect_encoding\<close> of
  \<open>utils/file_processor.py\<close> returns \<open>SHIFT_JIS\<close>, which is none of the three allowed
  strings, and on the empty buffer both detectors raise instead of returning \<open>utf-8\<close>.
\<close>
theorem detect_encoding_not_always_allowed:
  "fst (detect_encoding example_chardet \<lparr>content = shift_jis_sample, pos = 0\<rparr>)
     = Inr (ascii ''SHIFT_JIS'')
   \<and> ascii ''SHIFT_JIS'' \<notin> set ALLOWED_ENCODINGS
   \<and> fst (utils_detect_encoding example_chardet \<lparr>content = [], pos = 0\<rparr>)
     = Inl (Exc FileProcessError (msg_detect_failed none_has_no_lower))
   \<and> fst (detect_encoding example_chardet \<lparr>content = [], pos = 0\<rparr>) = Inl none_has_no_lower"
  by (simp add: detect_encoding_def utils_detect_encoding_def encoding_eval)

section \<open>Properties of the template renderer\<close>

lemmas path_eval =
  get_template_path_def CSS_DIR_def IMAGES_DIR_def TEMPLATES_DIR_def path_join_def

lemmas markup_eval =
  point_plain_def point_up_def score_up_display_def example_html_def example_css_def

lemma str_int_95: "str_int 95 = [57, 53]"
  by (simp add: str_int_def digits.simps)

lemma point_plain_nonempty: "point_plain \<noteq> []"
  by (simp add: point_plain_def)

lemma point_up_clean: "suffixes_incomparable point_plain point_up"
  by (simp add: point_plain_def point_up_def ascii_def)

lemma point_plain_clean: "suffixes_incomparable point_up (tl point_plain)"
  by (simp add: point_plain_def point_up_def ascii_def)

lemma template_type_step_rewrites_point:
  "(data ''template_type'' = Some (VStr score_up_display) \<longrightarrow>
      \<not> contains point_plain (snd (template_type_step data (css_content, html_content)))
      \<and> (contains point_plain html_content \<longrightarrow>
           contains point_up (snd (template_type_step data (css_content, html_content))))
      \<and> fst (template_type_step data (css_content, html_content))
          = css_content @ additional_css)
   \<and> (data ''template_type'' \<noteq> Some (VStr score_up_display) \<longrightarrow>
        template_type_step data (css_content, html_content) = (css_content, html_content))"
  using py_replace_removes[OF point_plain_nonempty point_up_clean point_plain_clean, of html_content]
    py_replace_puts[OF point_plain_nonempty, of html_content point_up]
  by (simp add: template_type_step_def)


lemmas render_eval =
  final_markup_def template_type_step_def substitute_fields_def substitute_def
  multiline_step_def body_interior_def load_images_def encode_image_to_base64_def
  path_eval example_env_def MULTILINE_SUBJECTS_def


subsection \<open>The point markup in the final markup\<close>











































subsection \<open>Failures of the rendering\<close>

lemma create_pdf_valid:
  "validate_data data = Inr None \<Longrightarrow> create_pdf E data = wrap_runtime_error (generate_pdf E data)"
  by (simp add: create_pdf_def)

text \<open>
  C8, as the code has it. For a record that passes validation, a stylesheet or HTML
  template that cannot be read, and a failure of the browser, each surface from
  \<open>create_pdf\<close> as a \<open>RuntimeError\<close> whose text ends with the text of the cause. An image
  that cannot be read does not: \<open>encode_image_to_base64\<close> prints a warning and returns
  the empty string.
\<close>
theorem template_failures_surface:
  "validate_data data = Inr None \<longrightarrow>
     (read_text E (get_template_path E ''css'' ''main.css'') = Inl e \<longrightarrow>
        create_pdf E data = (Inl (Exc RuntimeError (msg_pdf_error e)), []))
     \<and> (read_text E (get_template_path E ''css'' ''main.css'') = Inr css_content
          \<and> read_text E (get_template_path E ''html'' ''index.html'') = Inl e \<longrightarrow>
        create_pdf E data = (Inl (Exc RuntimeError (msg_pdf_error e)), []))
     \<and> (final_markup E data = (Inr markup, printed) \<and> render_pdf E markup = Inl e \<longrightarrow>
        create_pdf E data = (Inl (Exc RuntimeError (msg_pdf_error e)), printed))
     \<and> suffix (str_exc e) (msg_pdf_error e)
     \<and> (read_bytes E image_path = Inl e \<longrightarrow>
        encode_image_to_base64 E image_path = ([], [could_not_load image_path e]))"
  by (simp add: create_pdf_def generate_pdf_def final_markup_def wrap_runtime_error_def
      encode_image_to_base64_def msg_pdf_error_def suffix_def)

lemmas env_eval =
  env_missing_css_def env_missing_html_def env_browser_fails_def env_missing_images_def

lemma sample_record_valid: "validate_data (sample_record (VInt 95)) = Inr None"
  by (simp add: validate_data_def record_eval)

lemma final_markup_sample:
  "\<exists>css_content body.
     final_markup env_browser_fails (sample_record (VInt 95))
       = (Inr (html_with_css css_content body), [])"
  by (simp add: render_eval env_eval sample_record_def markup_eval str_int_95
      record_eval png_magic_def ascii_def) blast

text \<open>C8 on the example installation with one asset missing at a time.\<close>
theorem template_failures_surface_witness:
  "create_pdf env_missing_css (sample_record (VInt 95))
     = (Inl (Exc RuntimeError
          (msg_pdf_error (no_such_file (ascii ''/app/pdf_generator/templates/css/main.css'')))), [])
   \<and> create_pdf env_missing_html (sample_record (VInt 95))
     = (Inl (Exc RuntimeError
          (msg_pdf_error (no_such_file (ascii ''/app/pdf_generator/templates/index.html'')))), [])
   \<and> create_pdf env_browser_fails (sample_record (VInt 95))
     = (Inl (Exc RuntimeError (msg_pdf_error (Exc RendererError (ascii ''Target closed'')))), [])
   \<and> encode_image_to_base64 env_missing_images (ascii ''/missing.png'')
     = ([], [could_not_load (ascii ''/missing.png'') (no_such_file (ascii ''/missing.png''))])"
proof -
  note v = sample_record_valid
  have a: "read_text env_missing_css (get_template_path env_missing_css ''css'' ''main.css'')
      = Inl (no_such_file (ascii ''/app/pdf_generator/templates/css/main.css''))"
    by (simp add: path_eval env_eval example_env_def ascii_def)
  have b: "read_text env_missing_html (get_template_path env_missing_html ''css'' ''main.css'')
        = Inr example_css
      \<and> read_text env_missing_html (get_template_path env_missing_html ''html'' ''index.html'')
        = Inl (no_such_file (ascii ''/app/pdf_generator/templates/index.html''))"
    by (simp add: path_eval env_eval example_env_def ascii_def)
  from final_markup_sample obtain css_content body
    where c: "final_markup env_browser_fails (sample_record (VInt 95))
       = (Inr (html_with_css css_content body), [])" by blast
  have c': "render_pdf env_browser_fails (html_with_css css_content body)
      = Inl (Exc RendererError (ascii ''Target closed''))"
    by (simp add: env_eval example_env_def)
  have d: "read_bytes env_missing_images (ascii ''/missing.png'')
      = Inl (no_such_file (ascii ''/missing.png''))"
    by (simp add: env_eval example_env_def)
  from v a template_failures_surface[of "sample_record (VInt 95)" env_missing_css
      "no_such_file (ascii ''/app/pdf_generator/templates/css/main.css'')"]
  have 1: "create_pdf env_missing_css (sample_record (VInt 95))
     = (Inl (Exc RuntimeError
          (msg_pdf_error (no_such_file (ascii ''/app/pdf_generator/templates/css/main.css'')))), [])"
    by blast
  from v b template_failures_surface[of "sample_record (VInt 95)" env_missing_html
      "no_such_file (ascii ''/app/pdf_generator/templates/index.html'')" example_css]
  have 2: "create_pdf env_missing_html (sample_record (VInt 95))
     = (Inl (Exc RuntimeError
          (msg_pdf_error (no_such_file (ascii ''/app/pdf_generator/templates/index.html'')))), [])"
    by blast
  from v c c' template_failures_surface[of "sample_record (VInt 95)" env_browser_fails
      "Exc RendererError (ascii ''Target closed'')" _ "html_with_css css_content body" "[]"]
  have 3: "create_pdf env_browser_fails (sample_record (VInt 95))
     = (Inl (Exc RuntimeError (msg_pdf_error (Exc RendererError (ascii ''Target closed'')))), [])"
    by blast
  from v d template_failures_surface[of "sample_record (VInt 95)" env_missing_images
      "no_such_file (ascii ''/missing.png'')" _ _ _ "ascii ''/missing.png''"]
  have 4: "encode_image_to_base64 env_missing_images (ascii ''/missing.png'')
     = ([], [could_not_load (ascii ''/missing.png'') (no_such_file (ascii ''/missing.png''))])"
    by blast
  from 1 2 3 4 show ?thesis by blast
qed

text \<open>
  C8, at an installation where no image can be read: \<open>create_pdf\<close> returns the PDF, the
  medal is encoded as the empty string, and the only trace is the eight printed
  warnings.
\<close>
theorem unreadable_images_still_render:
  "read_bytes env_missing_images (get_template_path env_missing_images ''images'' ''math1.png'')
     = Inl (no_such_file (ascii ''/app/pdf_generator/templates/images/math1.png''))
   \<and> fst (encode_image_to_base64 env_missing_images
            (get_template_path env_missing_images ''images'' ''math1.png'')) = []
   \<and> validate_data (sample_record (VInt 95)) = Inr None
   \<and> fst (create_pdf env_missing_images (sample_record (VInt 95))) = Inr pdf_magic
   \<and> length (snd (create_pdf env_missing_images (sample_record (VInt 95)))) = 8"
proof -
  have a: "read_bytes env_missing_images (get_template_path env_missing_images ''images'' ''math1.png'')
     = Inl (no_such_file (ascii ''/app/pdf_generator/templates/images/math1.png''))
   \<and> fst (encode_image_to_base64 env_missing_images
            (get_template_path env_missing_images ''images'' ''math1.png'')) = []"
    by (simp add: encode_image_to_base64_def path_eval env_eval example_env_def ascii_def)
  have b: "\<exists>css_content body printed.
     final_markup env_missing_images (sample_record (VInt 95))
       = (Inr (html_with_css css_content body), printed) \<and> length printed = 8"
    by (simp add: render_eval env_eval sample_record_def markup_eval str_int_95
      record_eval ascii_def) blast
  then obtain css_content body printed where
    m: "final_markup env_missing_images (sample_record (VInt 95))
       = (Inr (html_with_css css_content body), printed)" and l: "length printed = 8"
    by blast
  have r: "render_pdf env_missing_images (html_with_css css_content body) = Inr pdf_magic"
    by (simp add: env_eval example_env_def)
  from m r l have "create_pdf env_missing_images (sample_record (VInt 95)) = (Inr pdf_magic, printed)"
    by (simp add: create_pdf_valid[OF sample_record_valid] generate_pdf_def wrap_runtime_error_def)
  with a l sample_record_valid show ?thesis by simp
qed

end
